theory Spec2Isabelle
  imports Main "HOL-Library.Char_ord" "HOL-Library.List_Lexorder" "HOL-Library.Multiset"
begin

section \<open>Strings and formatting\<close>

text \<open>
  Go strings are byte sequences; \<open>string\<close> is a list of 8-bit characters and the order on
  it (Char_ord, List_Lexorder) is the byte-wise lexicographic order that Go's \<open><\<close> on
  strings and \<open>sort.Strings\<close> use.
\<close>

text \<open>\<open>strings.Contains(s, substr)\<close>: some suffix of \<open>s\<close> starts with \<open>substr\<close>.\<close>

fun strings_Contains :: "string \<Rightarrow> string \<Rightarrow> bool" where
  "strings_Contains [] substr = (substr = [])"
| "strings_Contains (c # cs) substr =
     (take (length substr) (c # cs) = substr \<or> strings_Contains cs substr)"

text \<open>\<open>strings.Join(elems, sep)\<close>.\<close>

fun strings_Join :: "string list \<Rightarrow> string \<Rightarrow> string" where
  "strings_Join [] sep = []"
| "strings_Join [x] sep = x"
| "strings_Join (x # y # ys) sep = x @ sep @ strings_Join (y # ys) sep"

text \<open>Decimal rendering, as \<open>strconv.Itoa\<close> and the verb \<open>%d\<close> of \<open>fmt.Sprintf\<close> do it.\<close>

function decimal :: "nat \<Rightarrow> string" where
  "decimal n = (if n < 10 then [''0123456789'' ! n]
                else decimal (n div 10) @ [''0123456789'' ! (n mod 10)])"
  by pat_completeness auto
termination
  by (relation "measure (\<lambda>n. n)") auto

declare decimal.simps [simp del]

definition strconv_Itoa :: "int \<Rightarrow> string" where
  "strconv_Itoa i = (if i < 0 then ''-'' @ decimal (nat (- i)) else decimal (nat i))"

section \<open>Data model\<close>

text \<open>
  A Go \<open>map[string]string\<close> is an association list read with \<open>map_of\<close>; an assignment
  \<open>m[k] = v\<close> puts the pair in front, so the newest value of a key is the one found.
  A pointer field that may be nil is an \<open>option\<close>; a dereference of nil is the failure
  \<open>Panic\<close>. The 32-bit counts are \<open>int\<close>: the code only converts them to the wider
  \<open>int\<close> and compares them.
\<close>

type_synonym labels = "(string \<times> string) list"

text \<open>\<open>types.NamespacedName\<close>: namespace, then name.\<close>

type_synonym key = "string \<times> string"

datatype error = NotFound | AlreadyExists | BadRequest string | OtherError string

datatype failure = Err error | Panic

text \<open>\<open>errors.IsNotFound\<close>.\<close>

definition IsNotFound :: "error \<Rightarrow> bool" where
  "IsNotFound e = (e = NotFound)"

record ObjectMeta =
  Name :: string
  Namespace :: string
  Labels :: labels
  OwnerReferences :: "key list"

definition keyOf :: "ObjectMeta \<Rightarrow> key" where
  "keyOf m = (Namespace m, Name m)"

record ContainerImage =
  Repository :: string
  Tag :: string
  PullPolicy :: string
  ImagePullSecret :: string

record ZookeeperConnectionInfo =
  InternalConnectionString :: string
  ExternalConnectionString :: "string option"
  ChRoot :: string

record ProvidedZookeeper =
  pzk_Zookeeper :: string
  pzk_ChRoot :: string

record ZookeeperRef =
  ConnectionInfo :: "ZookeeperConnectionInfo option"
  ProvidedZookeeper :: "ProvidedZookeeper option"

datatype ExternalAddressabilityMethod = Ingress | ExternalDNS

record ExternalAddressability =
  Method :: ExternalAddressabilityMethod
  UseExternalAddress :: bool
  HideNodes :: bool
  HideCommon :: bool
  DomainName :: string

record SolrNodeStatus =
  node_Name :: string
  node_NodeName :: string
  node_InternalAddress :: string
  node_ExternalAddress :: string
  node_Ready :: bool
  node_Version :: string

text \<open>
  \<open>SolrNodes\<close> is a slice: \<open>None\<close> is the nil slice, \<open>Some []\<close> the empty one that
  \<open>make\<close> returns; \<open>reflect.DeepEqual\<close> tells them apart, and so does equality here.
\<close>

record SolrCloudStatus =
  SolrNodes :: "SolrNodeStatus list option"
  status_Replicas :: int
  status_ReadyReplicas :: int
  Version :: string
  TargetVersion :: string
  InternalCommonAddress :: string
  ExternalCommonAddress :: "string option"
  ZookeeperConnectionInfo :: ZookeeperConnectionInfo
  BackupRestoreReady :: bool

record SolrCloudSpec =
  Replicas :: "int option"
  ZookeeperRef :: ZookeeperRef
  SolrImage :: ContainerImage
  BusyBoxImage :: "ContainerImage option"
  External :: "ExternalAddressability option"
  BackupRestoreVolume :: "string option"

record SolrCloud =
  sc_Meta :: ObjectMeta
  Spec :: SolrCloudSpec
  Status :: SolrCloudStatus

text \<open>
  The dependent resources. Each keeps the fields the controller reads; what the generators
  put in the rest of a descriptor is one field, \<open>\<dots>_Spec\<close>, that this theory never looks
  into.
\<close>

record Service =
  svc_Meta :: ObjectMeta
  svc_Spec :: string
  svc_ClusterIP :: string

record ConfigMap =
  cm_Meta :: ObjectMeta
  cm_Data :: labels

record StatefulSet =
  sts_Meta :: ObjectMeta
  sts_Spec :: string
  sts_Status_Replicas :: int
  sts_Status_ReadyReplicas :: int

record IngressObj =
  ing_Meta :: ObjectMeta
  ing_Spec :: string

record ZookeeperCluster =
  zk_Meta :: ObjectMeta
  zk_Spec_Replicas :: int
  zk_Spec :: string
  zk_Status_ExternalClientEndpoint :: string

record Pod =
  pod_Meta :: ObjectMeta
  pod_NodeName :: string
  pod_ContainerImages :: "string list"
  pod_VolumeNames :: "string list"
  pod_ContainerReady :: "bool list"

text \<open>\<open>reconcile.Result\<close>.\<close>

record Result =
  Requeue :: bool
  RequeueAfter :: int

definition emptyResult :: Result where
  "emptyResult = \<lparr>Requeue = False, RequeueAfter = 0\<rparr>"

text \<open>What one call of \<open>Reconcile\<close> gives back: its two results, or a panic.\<close>

datatype outcome = Returned Result "error option" | Panicked

definition emptyZookeeperConnectionInfo :: ZookeeperConnectionInfo where
  "emptyZookeeperConnectionInfo =
     \<lparr>InternalConnectionString = [], ExternalConnectionString = None, ChRoot = []\<rparr>"

text \<open>The zero value \<open>solr.SolrCloudStatus{}\<close>.\<close>

definition emptyStatus :: SolrCloudStatus where
  "emptyStatus =
     \<lparr>SolrNodes = None, status_Replicas = 0, status_ReadyReplicas = 0, Version = [],
      TargetVersion = [], InternalCommonAddress = [], ExternalCommonAddress = None,
      ZookeeperConnectionInfo = emptyZookeeperConnectionInfo, BackupRestoreReady = False\<rparr>"

definition emptyNodeStatus :: SolrNodeStatus where
  "emptyNodeStatus =
     \<lparr>node_Name = [], node_NodeName = [], node_InternalAddress = [],
      node_ExternalAddress = [], node_Ready = False, node_Version = []\<rparr>"

section \<open>The platform client\<close>

text \<open>
  The controller talks to the object store through \<open>Get\<close>, \<open>Create\<close>, \<open>Update\<close>, \<open>List\<close>
  and the status writer. The store is part of the state that every call takes and returns.
  \<open>faults\<close> scripts the platform's failures: each call consumes the head, and fails with it
  when it is an error. \<open>trace\<close> records every call in the order it was issued, the failed
  ones included. A \<open>Get\<close> of an absent object answers not-found, a \<open>Create\<close> of a present
  one already-exists, an \<open>Update\<close> of an absent one not-found. \<open>Create\<close> and \<open>Update\<close>
  leave the object they are given as it is: the fields the controller reads from a live
  object after its update are those it had before.
\<close>

datatype kind =
  SolrCloudKind | ServiceKind | ConfigMapKind | StatefulSetKind | IngressKind
  | ZookeeperClusterKind

datatype call =
  GetCall kind key
  | CreateCall kind key
  | UpdateCall kind key
  | ListPodsCall string labels
  | StatusUpdateCall key

record world =
  solrClouds :: "key \<rightharpoonup> SolrCloud"
  services :: "key \<rightharpoonup> Service"
  configMaps :: "key \<rightharpoonup> ConfigMap"
  statefulSets :: "key \<rightharpoonup> StatefulSet"
  ingresses :: "key \<rightharpoonup> IngressObj"
  zookeeperClusters :: "key \<rightharpoonup> ZookeeperCluster"
  podItems :: "Pod list"
  faults :: "error option list"
  trace :: "call list"

definition logCall :: "call \<Rightarrow> world \<Rightarrow> world" where
  "logCall c w = w\<lparr>trace := trace w @ [c]\<rparr>"

definition nextFault :: "world \<Rightarrow> error option \<times> world" where
  "nextFault w = (case faults w of [] \<Rightarrow> (None, w) | f # fs \<Rightarrow> (f, w\<lparr>faults := fs\<rparr>))"

definition clientGet ::
  "kind \<Rightarrow> (world \<Rightarrow> key \<rightharpoonup> 'a) \<Rightarrow> key \<Rightarrow> world \<Rightarrow> (error + 'a) \<times> world" where
  "clientGet k store nm w =
     (case nextFault (logCall (GetCall k nm) w) of
        (Some e, w1) \<Rightarrow> (Inl e, w1)
      | (None, w1) \<Rightarrow>
          (case store w1 nm of None \<Rightarrow> (Inl NotFound, w1) | Some x \<Rightarrow> (Inr x, w1)))"

definition clientCreate ::
  "kind \<Rightarrow> (world \<Rightarrow> key \<rightharpoonup> 'a) \<Rightarrow> (((key \<rightharpoonup> 'a) \<Rightarrow> (key \<rightharpoonup> 'a)) \<Rightarrow> world \<Rightarrow> world)
     \<Rightarrow> key \<Rightarrow> 'a \<Rightarrow> world \<Rightarrow> error option \<times> world" where
  "clientCreate k store upd nm x w =
     (case nextFault (logCall (CreateCall k nm) w) of
        (Some e, w1) \<Rightarrow> (Some e, w1)
      | (None, w1) \<Rightarrow>
          (case store w1 nm of
             Some y \<Rightarrow> (Some AlreadyExists, w1)
           | None \<Rightarrow> (None, upd (\<lambda>m. m(nm \<mapsto> x)) w1)))"

definition clientUpdate ::
  "kind \<Rightarrow> (world \<Rightarrow> key \<rightharpoonup> 'a) \<Rightarrow> (((key \<rightharpoonup> 'a) \<Rightarrow> (key \<rightharpoonup> 'a)) \<Rightarrow> world \<Rightarrow> world)
     \<Rightarrow> key \<Rightarrow> 'a \<Rightarrow> world \<Rightarrow> error option \<times> world" where
  "clientUpdate k store upd nm x w =
     (case nextFault (logCall (UpdateCall k nm) w) of
        (Some e, w1) \<Rightarrow> (Some e, w1)
      | (None, w1) \<Rightarrow>
          (case store w1 nm of
             None \<Rightarrow> (Some NotFound, w1)
           | Some y \<Rightarrow> (None, upd (\<lambda>m. m(nm \<mapsto> x)) w1)))"

text \<open>The status writer replaces the status of the stored object and nothing else.\<close>

definition clientStatusUpdate :: "SolrCloud \<Rightarrow> world \<Rightarrow> error option \<times> world" where
  "clientStatusUpdate instance w =
     (case nextFault (logCall (StatusUpdateCall (keyOf (sc_Meta instance))) w) of
        (Some e, w1) \<Rightarrow> (Some e, w1)
      | (None, w1) \<Rightarrow>
          (case solrClouds w1 (keyOf (sc_Meta instance)) of
             None \<Rightarrow> (Some NotFound, w1)
           | Some stored \<Rightarrow>
               (None, w1\<lparr>solrClouds := (solrClouds w1)
                    (keyOf (sc_Meta instance) \<mapsto> stored\<lparr>Status := Status instance\<rparr>)\<rparr>)))"

definition labelsMatch :: "labels \<Rightarrow> labels \<Rightarrow> bool" where
  "labelsMatch selector ls = list_all (\<lambda>(k, v). map_of ls k = Some v) selector"

definition clientListPods :: "string \<Rightarrow> labels \<Rightarrow> world \<Rightarrow> (error + Pod list) \<times> world" where
  "clientListPods ns selector w =
     (case nextFault (logCall (ListPodsCall ns selector) w) of
        (Some e, w1) \<Rightarrow> (Inl e, w1)
      | (None, w1) \<Rightarrow>
          (Inr (filter (\<lambda>p. Namespace (pod_Meta p) = ns \<and> labelsMatch selector (Labels (pod_Meta p)))
                 (podItems w1)), w1))"

section \<open>What the controller takes from the rest of the repository\<close>

text \<open>
  The methods of the schema types, the descriptor generators and the field-copy functions
  are defined in other files of the repository, and so are the constants of package
  \<open>util\<close>; the two process-wide settings \<open>useZkCRD\<close> and \<open>IngressBaseUrl\<close> are set from
  outside. They are the fields of \<open>env\<close>; every definition below takes them as a parameter
  and every theorem holds for all of them. A generator is a pure function of the desired
  state; a field-copy function returns whether the live object needs an update together
  with the live object after the merge; \<open>SetControllerReference\<close> returns the metadata
  with the owner edge, or an error.
\<close>

record env =
  useZkCRD :: bool
  IngressBaseUrl :: string
  BackupRestoreVolumeName :: string
  SolrTechnologyLabel :: string
  WithDefaults :: "string \<Rightarrow> SolrCloud \<Rightarrow> bool \<times> SolrCloud"
  SetControllerReference :: "SolrCloud \<Rightarrow> ObjectMeta \<Rightarrow> error + ObjectMeta"
  ZkConnectionString :: "SolrCloudStatus \<Rightarrow> string"
  ImageVersion :: "string \<Rightarrow> string"
  SharedLabels :: "SolrCloud \<Rightarrow> labels"
  GetAllSolrNodeNames :: "SolrCloud \<Rightarrow> string list"
  UsesIndividualNodeServices :: "SolrCloud \<Rightarrow> bool"
  UsesHeadlessService :: "SolrCloud \<Rightarrow> bool"
  AdvertisedNodeHost :: "SolrCloud \<Rightarrow> string \<Rightarrow> string"
  InternalNodeUrl :: "SolrCloud \<Rightarrow> string \<Rightarrow> bool \<Rightarrow> string"
  ExternalNodeUrl :: "SolrCloud \<Rightarrow> string \<Rightarrow> string \<Rightarrow> bool \<Rightarrow> string"
  InternalCommonUrl :: "SolrCloud \<Rightarrow> bool \<Rightarrow> string"
  ExternalCommonUrl :: "SolrCloud \<Rightarrow> string \<Rightarrow> bool \<Rightarrow> string"
  ZookeeperPortsClient :: "ZookeeperCluster \<Rightarrow> int"
  GenerateCommonService :: "SolrCloud \<Rightarrow> Service"
  GenerateNodeService :: "SolrCloud \<Rightarrow> string \<Rightarrow> Service"
  GenerateHeadlessService :: "SolrCloud \<Rightarrow> Service"
  GenerateConfigMap :: "SolrCloud \<Rightarrow> ConfigMap"
  GenerateStatefulSet :: "SolrCloud \<Rightarrow> SolrCloudStatus \<Rightarrow> labels \<Rightarrow> StatefulSet"
  GenerateIngress :: "SolrCloud \<Rightarrow> string list \<Rightarrow> string \<Rightarrow> IngressObj"
  GenerateZookeeperCluster :: "SolrCloud \<Rightarrow> ProvidedZookeeper \<Rightarrow> ZookeeperCluster"
  CopyServiceFields :: "Service \<Rightarrow> Service \<Rightarrow> bool \<times> Service"
  CopyConfigMapFields :: "ConfigMap \<Rightarrow> ConfigMap \<Rightarrow> bool \<times> ConfigMap"
  CopyStatefulSetFields :: "StatefulSet \<Rightarrow> StatefulSet \<Rightarrow> bool \<times> StatefulSet"
  CopyIngressFields :: "IngressObj \<Rightarrow> IngressObj \<Rightarrow> bool \<times> IngressObj"
  CopyZookeeperClusterFields :: "ZookeeperCluster \<Rightarrow> ZookeeperCluster \<Rightarrow> bool \<times> ZookeeperCluster"

section \<open>The coordination cluster: \<open>reconcileZk\<close>\<close>

text \<open>
  One entry of the internal connection string,
  \<open>fmt.Sprintf("%s-%d.%s-headless.%s:%d", name, i, name, namespace, port)\<close>.
\<close>

definition zkInternalEntry :: "string \<Rightarrow> string \<Rightarrow> int \<Rightarrow> nat \<Rightarrow> string" where
  "zkInternalEntry name ns port i =
     name @ ''-'' @ strconv_Itoa (int i) @ ''.'' @ name @ ''-headless.'' @ ns @ '':''
       @ strconv_Itoa port"

text \<open>
  \<open>reconcileZk\<close> writes the connection information through the pointer \<open>newStatus\<close> and
  returns an error: the result is the error (or panic), the status after the call and the
  world after the call. \<open>make\<close> panics on a negative length.
\<close>

definition reconcileZk ::
  "env \<Rightarrow> SolrCloud \<Rightarrow> SolrCloudStatus \<Rightarrow> world \<Rightarrow> (failure option \<times> SolrCloudStatus) \<times> world" where
  "reconcileZk e instance newStatus w =
     (let zkRef = ZookeeperRef (Spec instance) in
      case ConnectionInfo zkRef of
        Some ci \<Rightarrow> ((None, newStatus\<lparr>ZookeeperConnectionInfo := ci\<rparr>), w)
      | None \<Rightarrow>
          (case ProvidedZookeeper zkRef of
             None \<Rightarrow>
               ((Some (Err (BadRequest ''No Zookeeper reference information provided.'')),
                 newStatus), w)
           | Some pzk \<Rightarrow>
               if \<not> useZkCRD e then
                 ((Some (Err (BadRequest
                    ''Cannot create a Zookeeper Cluster, as the Solr Operator is not configured to use the Zookeeper CRD'')),
                   newStatus), w)
               else
                 (let generated = GenerateZookeeperCluster e instance pzk in
                  case SetControllerReference e instance (zk_Meta generated) of
                    Inl err \<Rightarrow> ((Some (Err err), newStatus), w)
                  | Inr m \<Rightarrow>
                      (let zkCluster = generated\<lparr>zk_Meta := m\<rparr> in
                       case clientGet ZookeeperClusterKind zookeeperClusters (keyOf m) w of
                         (Inl err, w1) \<Rightarrow>
                           if IsNotFound err then
                             (case clientCreate ZookeeperClusterKind zookeeperClusters
                                     zookeeperClusters_update (keyOf m) zkCluster w1 of
                                (err', w2) \<Rightarrow> ((map_option Err err', newStatus), w2))
                           else ((Some (Err err), newStatus), w1)
                       | (Inr found, w1) \<Rightarrow>
                           (case CopyZookeeperClusterFields e zkCluster found of
                              (changed, foundZkCluster) \<Rightarrow>
                                (case (if changed
                                       then clientUpdate ZookeeperClusterKind zookeeperClusters
                                              zookeeperClusters_update (keyOf (zk_Meta foundZkCluster))
                                              foundZkCluster w1
                                       else (None, w1)) of
                                   (err', w2) \<Rightarrow>
                                     if zk_Spec_Replicas zkCluster < 0 then ((Some Panic, newStatus), w2)
                                     else
                                       ((map_option Err err',
                                         newStatus\<lparr>ZookeeperConnectionInfo :=
                                           \<lparr>InternalConnectionString =
                                              strings_Join
                                                (map (zkInternalEntry
                                                        (Name (zk_Meta foundZkCluster))
                                                        (Namespace (zk_Meta foundZkCluster))
                                                        (ZookeeperPortsClient e foundZkCluster))
                                                   [0 ..< nat (zk_Spec_Replicas zkCluster)])
                                                '','',
                                            ExternalConnectionString =
                                              (if zk_Status_ExternalClientEndpoint foundZkCluster = []
                                               then None
                                               else Some (zk_Status_ExternalClientEndpoint foundZkCluster)),
                                            ChRoot = pzk_ChRoot pzk\<rparr>\<rparr>), w2)))))))"

section \<open>The per-node services\<close>

text \<open>\<open>reconcileNodeService\<close> returns an error and the cluster-internal address.\<close>

definition reconcileNodeService ::
  "env \<Rightarrow> SolrCloud \<Rightarrow> string \<Rightarrow> world \<Rightarrow> (error option \<times> string) \<times> world" where
  "reconcileNodeService e instance nodeName w =
     (let generated = GenerateNodeService e instance nodeName in
      case SetControllerReference e instance (svc_Meta generated) of
        Inl err \<Rightarrow> ((Some err, []), w)
      | Inr m \<Rightarrow>
          (let service = generated\<lparr>svc_Meta := m\<rparr> in
           case clientGet ServiceKind services (keyOf m) w of
             (Inl err, w1) \<Rightarrow>
               if IsNotFound err then
                 (case clientCreate ServiceKind services services_update (keyOf m) service w1 of
                    (err', w2) \<Rightarrow> ((err', []), w2))
               else ((Some err, []), w1)
           | (Inr found, w1) \<Rightarrow>
               (case CopyServiceFields e service found of
                  (changed, foundService) \<Rightarrow>
                    (case (if changed
                           then clientUpdate ServiceKind services services_update
                                  (keyOf (svc_Meta foundService)) foundService w1
                           else (None, w1)) of
                       (err', w2) \<Rightarrow> ((err', svc_ClusterIP foundService), w2)))))"

text \<open>
  The loop of \<open>Reconcile\<close> over the node names (it runs when
  \<open>UsesIndividualNodeServices\<close> holds). It carries \<open>blockReconciliationOfStatefulSet\<close> and
  \<open>hostNameIpMap\<close>. Reading \<open>UseExternalAddress\<close> through a nil \<open>External\<close> panics.
\<close>

fun nodeServicesLoop ::
  "env \<Rightarrow> SolrCloud \<Rightarrow> string list \<Rightarrow> bool \<Rightarrow> labels \<Rightarrow> world
     \<Rightarrow> (failure + bool \<times> labels) \<times> world" where
  "nodeServicesLoop e instance [] block hostNameIpMap w = (Inr (block, hostNameIpMap), w)"
| "nodeServicesLoop e instance (nodeName # rest) block hostNameIpMap w =
     (case reconcileNodeService e instance nodeName w of
        ((Some err, ip), w1) \<Rightarrow> (Inl (Err err), w1)
      | ((None, ip), w1) \<Rightarrow>
          (case External (Spec instance) of
             None \<Rightarrow> (Inl Panic, w1)
           | Some ext \<Rightarrow>
               if UseExternalAddress ext then
                 (if ip = [] then nodeServicesLoop e instance rest True hostNameIpMap w1
                  else nodeServicesLoop e instance rest block
                         ((AdvertisedNodeHost e instance nodeName, ip) # hostNameIpMap) w1)
               else nodeServicesLoop e instance rest block hostNameIpMap w1))"

section \<open>The status aggregator: \<open>reconcileCloudStatus\<close>\<close>

text \<open>
  The variables of the loop over the listed pods. \<open>nodeNames\<close> is filled by index in the
  order of the list, which is the list of the names in that order.
\<close>

record podAcc =
  otherVersions :: "string list"
  nodeNames :: "string list"
  nodeStatusMap :: "string \<rightharpoonup> SolrNodeStatus"
  backupRestoreReadyPods :: int

definition initialPodAcc :: podAcc where
  "initialPodAcc =
     \<lparr>otherVersions = [], nodeNames = [], nodeStatusMap = Map.empty, backupRestoreReadyPods = 0\<rparr>"

text \<open>
  The body of the loop for one pod. \<open>p.Spec.Containers[0]\<close> panics for a pod that reports
  container statuses and has no container.
\<close>

definition podLoopBody :: "env \<Rightarrow> SolrCloud \<Rightarrow> Pod \<Rightarrow> podAcc \<Rightarrow> failure + podAcc" where
  "podLoopBody e solrCloud p acc =
     (let name = Name (pod_Meta p);
          nodeStatus0 = emptyNodeStatus
            \<lparr>node_Name := name,
             node_NodeName := pod_NodeName p,
             node_InternalAddress := ''http://'' @ InternalNodeUrl e solrCloud name True\<rparr>;
          nodeStatus1 =
            (case External (Spec solrCloud) of
               None \<Rightarrow> nodeStatus0
             | Some ext \<Rightarrow>
                 if \<not> HideNodes ext
                 then nodeStatus0\<lparr>node_ExternalAddress :=
                        ''http://'' @ ExternalNodeUrl e solrCloud name (DomainName ext) True\<rparr>
                 else nodeStatus0);
          backup =
            (if BackupRestoreVolume (Spec solrCloud) \<noteq> None
             then backupRestoreReadyPods acc
                    + int (length (filter (\<lambda>v. v = BackupRestoreVolumeName e) (pod_VolumeNames p)))
             else backupRestoreReadyPods acc)
      in
      if pod_ContainerReady p \<noteq> [] then
        (case pod_ContainerImages p of
           [] \<Rightarrow> Inl Panic
         | firstImage # others \<Rightarrow>
             (let version = ImageVersion e firstImage;
                  nodeStatus = nodeStatus1
                    \<lparr>node_Version := version,
                     node_Ready := foldl (\<lambda>ready c. ready \<and> c) True (pod_ContainerReady p)\<rparr>
              in Inr \<lparr>otherVersions =
                        (if version \<noteq> Tag (SolrImage (Spec solrCloud))
                         then otherVersions acc @ [version] else otherVersions acc),
                      nodeNames = nodeNames acc @ [name],
                      nodeStatusMap = (nodeStatusMap acc)(name \<mapsto> nodeStatus),
                      backupRestoreReadyPods = backup\<rparr>))
      else
        Inr \<lparr>otherVersions = otherVersions acc,
             nodeNames = nodeNames acc @ [name],
             nodeStatusMap = (nodeStatusMap acc)(name \<mapsto> nodeStatus1\<lparr>node_Ready := False\<rparr>),
             backupRestoreReadyPods = backup\<rparr>)"

fun podLoop :: "env \<Rightarrow> SolrCloud \<Rightarrow> Pod list \<Rightarrow> podAcc \<Rightarrow> failure + podAcc" where
  "podLoop e solrCloud [] acc = Inr acc"
| "podLoop e solrCloud (p # ps) acc =
     (case podLoopBody e solrCloud p acc of
        Inl f \<Rightarrow> Inl f
      | Inr acc' \<Rightarrow> podLoop e solrCloud ps acc')"

text \<open>A Go map read at a missing key gives the zero value.\<close>

definition lookupNodeStatus :: "(string \<rightharpoonup> SolrNodeStatus) \<Rightarrow> string \<Rightarrow> SolrNodeStatus" where
  "lookupNodeStatus m n = (case m n of None \<Rightarrow> emptyNodeStatus | Some s \<Rightarrow> s)"

text \<open>
  Everything \<open>reconcileCloudStatus\<close> does after the pods are listed: the loop, the sort of
  the names, the per-node array, the backup flag, the versions and the common addresses.
  \<open>*solrCloud.Spec.Replicas\<close> panics on nil.
\<close>

definition statusFromPods ::
  "env \<Rightarrow> SolrCloud \<Rightarrow> Pod list \<Rightarrow> SolrCloudStatus \<Rightarrow> failure + SolrCloudStatus" where
  "statusFromPods e solrCloud pods newStatus =
     (case podLoop e solrCloud pods initialPodAcc of
        Inl f \<Rightarrow> Inl f
      | Inr acc \<Rightarrow>
          (let st1 = newStatus
                 \<lparr>SolrNodes := Some (map (lookupNodeStatus (nodeStatusMap acc)) (sort (nodeNames acc)))\<rparr>
           in
           case Replicas (Spec solrCloud) of
             None \<Rightarrow> Inl Panic
           | Some replicas \<Rightarrow>
               (let st2 = (if backupRestoreReadyPods acc = replicas \<and> backupRestoreReadyPods acc > 0
                           then st1\<lparr>BackupRestoreReady := True\<rparr> else st1);
                    st3 = (case otherVersions acc of
                             v # vs \<Rightarrow> st2\<lparr>TargetVersion := Tag (SolrImage (Spec solrCloud)),
                                           Version := v\<rparr>
                           | [] \<Rightarrow> st2\<lparr>TargetVersion := [],
                                       Version := Tag (SolrImage (Spec solrCloud))\<rparr>);
                    st4 = st3\<lparr>InternalCommonAddress :=
                                ''http://'' @ InternalCommonUrl e solrCloud True\<rparr>
                in
                Inr (case External (Spec solrCloud) of
                       None \<Rightarrow> st4
                     | Some ext \<Rightarrow>
                         if \<not> HideCommon ext
                         then st4\<lparr>ExternalCommonAddress :=
                                Some (''http://'' @ ExternalCommonUrl e solrCloud (DomainName ext) True)\<rparr>
                         else st4))))"

definition reconcileCloudStatus ::
  "env \<Rightarrow> SolrCloud \<Rightarrow> SolrCloudStatus \<Rightarrow> world \<Rightarrow> (failure + SolrCloudStatus) \<times> world" where
  "reconcileCloudStatus e solrCloud newStatus w =
     (case clientListPods (Namespace (sc_Meta solrCloud))
             ((''technology'', SolrTechnologyLabel e) # SharedLabels e solrCloud) w of
        (Inl err, w1) \<Rightarrow> (Inl (Err err), w1)
      | (Inr foundPods, w1) \<Rightarrow> (statusFromPods e solrCloud foundPods newStatus, w1))"

section \<open>The steps of \<open>Reconcile\<close>\<close>

text \<open>
  The common service. The error of its \<open>Create\<close> or \<open>Update\<close> is assigned to \<open>err\<close> and
  never read: the next statement that uses \<open>err\<close> assigns it first.
\<close>

definition commonServiceStep :: "env \<Rightarrow> SolrCloud \<Rightarrow> world \<Rightarrow> failure option \<times> world" where
  "commonServiceStep e instance w =
     (let generated = GenerateCommonService e instance in
      case SetControllerReference e instance (svc_Meta generated) of
        Inl err \<Rightarrow> (Some (Err err), w)
      | Inr m \<Rightarrow>
          (let commonService = generated\<lparr>svc_Meta := m\<rparr> in
           case clientGet ServiceKind services (keyOf m) w of
             (Inl err, w1) \<Rightarrow>
               if IsNotFound err then
                 (case clientCreate ServiceKind services services_update (keyOf m)
                         commonService w1 of
                    (err', w2) \<Rightarrow> (None, w2))
               else (Some (Err err), w1)
           | (Inr found, w1) \<Rightarrow>
               (case CopyServiceFields e commonService found of
                  (changed, foundCommonService) \<Rightarrow>
                    if changed then
                      (case clientUpdate ServiceKind services services_update
                              (keyOf (svc_Meta foundCommonService)) foundCommonService w1 of
                         (err', w2) \<Rightarrow> (None, w2))
                    else (None, w1))))"

definition nodeServicesStep ::
  "env \<Rightarrow> SolrCloud \<Rightarrow> string list \<Rightarrow> world \<Rightarrow> (failure + bool \<times> labels) \<times> world" where
  "nodeServicesStep e instance solrNodeNames w =
     (if UsesIndividualNodeServices e instance
      then nodeServicesLoop e instance solrNodeNames False [] w
      else (Inr (False, []), w))"

definition headlessServiceStep :: "env \<Rightarrow> SolrCloud \<Rightarrow> world \<Rightarrow> failure option \<times> world" where
  "headlessServiceStep e instance w =
     (if UsesHeadlessService e instance then
        (let generated = GenerateHeadlessService e instance in
         case SetControllerReference e instance (svc_Meta generated) of
           Inl err \<Rightarrow> (Some (Err err), w)
         | Inr m \<Rightarrow>
             (let headless = generated\<lparr>svc_Meta := m\<rparr> in
              case clientGet ServiceKind services (keyOf m) w of
                (Inl err, w1) \<Rightarrow>
                  if IsNotFound err then
                    (case clientCreate ServiceKind services services_update (keyOf m) headless w1 of
                       (err', w2) \<Rightarrow> (map_option Err err', w2))
                  else (Some (Err err), w1)
              | (Inr found, w1) \<Rightarrow>
                  (case CopyServiceFields e headless found of
                     (changed, foundHeadless) \<Rightarrow>
                       if changed then
                         (case clientUpdate ServiceKind services services_update
                                 (keyOf (svc_Meta foundHeadless)) foundHeadless w1 of
                            (err', w2) \<Rightarrow> (map_option Err err', w2))
                       else (None, w1))))
      else (None, w))"

definition configMapStep :: "env \<Rightarrow> SolrCloud \<Rightarrow> world \<Rightarrow> failure option \<times> world" where
  "configMapStep e instance w =
     (let generated = GenerateConfigMap e instance in
      case SetControllerReference e instance (cm_Meta generated) of
        Inl err \<Rightarrow> (Some (Err err), w)
      | Inr m \<Rightarrow>
          (let configMap = generated\<lparr>cm_Meta := m\<rparr> in
           case clientGet ConfigMapKind configMaps (keyOf m) w of
             (Inl err, w1) \<Rightarrow>
               if IsNotFound err then
                 (case clientCreate ConfigMapKind configMaps configMaps_update (keyOf m) configMap w1 of
                    (err', w2) \<Rightarrow> (map_option Err err', w2))
               else (Some (Err err), w1)
           | (Inr found, w1) \<Rightarrow>
               (case CopyConfigMapFields e configMap found of
                  (changed, foundConfigMap) \<Rightarrow>
                    if changed then
                      (case clientUpdate ConfigMapKind configMaps configMaps_update
                              (keyOf (cm_Meta foundConfigMap)) foundConfigMap w1 of
                         (err', w2) \<Rightarrow> (map_option Err err', w2))
                    else (None, w1))))"

text \<open>
  The replicated workload set. The test of the connection string sets the block flag; with
  the flag set nothing of the step runs. With an existing set, the replica counts of the
  live object go into the status, also when its update failed (the pass then returns the
  error).
\<close>

definition statefulSetStep ::
  "env \<Rightarrow> SolrCloud \<Rightarrow> labels \<Rightarrow> bool \<Rightarrow> SolrCloudStatus \<Rightarrow> world
     \<Rightarrow> (failure + SolrCloudStatus) \<times> world" where
  "statefulSetStep e instance hostNameIpMap block newStatus w =
     (let blockReconciliationOfStatefulSet =
            (if \<not> strings_Contains (ZkConnectionString e newStatus) '':'' then True else block)
      in
      if \<not> blockReconciliationOfStatefulSet then
        (let generated = GenerateStatefulSet e instance newStatus hostNameIpMap in
         case SetControllerReference e instance (sts_Meta generated) of
           Inl err \<Rightarrow> (Inl (Err err), w)
         | Inr m \<Rightarrow>
             (let statefulSet = generated\<lparr>sts_Meta := m\<rparr> in
              case clientGet StatefulSetKind statefulSets (keyOf m) w of
                (Inl err, w1) \<Rightarrow>
                  if IsNotFound err then
                    (case clientCreate StatefulSetKind statefulSets statefulSets_update (keyOf m)
                            statefulSet w1 of
                       (Some err', w2) \<Rightarrow> (Inl (Err err'), w2)
                     | (None, w2) \<Rightarrow> (Inr newStatus, w2))
                  else (Inl (Err err), w1)
              | (Inr found, w1) \<Rightarrow>
                  (case CopyStatefulSetFields e statefulSet found of
                     (changed, foundStatefulSet) \<Rightarrow>
                       (case (if changed
                              then clientUpdate StatefulSetKind statefulSets statefulSets_update
                                     (keyOf (sts_Meta foundStatefulSet)) foundStatefulSet w1
                              else (None, w1)) of
                          (Some err', w2) \<Rightarrow> (Inl (Err err'), w2)
                        | (None, w2) \<Rightarrow>
                            (Inr (newStatus\<lparr>status_Replicas := sts_Status_Replicas foundStatefulSet,
                                            status_ReadyReplicas := sts_Status_ReadyReplicas foundStatefulSet\<rparr>),
                             w2)))))
      else (Inr newStatus, w))"

definition ingressStep ::
  "env \<Rightarrow> SolrCloud \<Rightarrow> string list \<Rightarrow> world \<Rightarrow> failure option \<times> world" where
  "ingressStep e instance solrNodeNames w =
     (case External (Spec instance) of
        None \<Rightarrow> (None, w)
      | Some extAddressabilityOpts \<Rightarrow>
          if Method extAddressabilityOpts = Ingress then
            (let generated = GenerateIngress e instance solrNodeNames (IngressBaseUrl e) in
             case SetControllerReference e instance (ing_Meta generated) of
               Inl err \<Rightarrow> (Some (Err err), w)
             | Inr m \<Rightarrow>
                 (let ingress = generated\<lparr>ing_Meta := m\<rparr> in
                  case clientGet IngressKind ingresses (keyOf m) w of
                    (Inl err, w1) \<Rightarrow>
                      if IsNotFound err then
                        (case clientCreate IngressKind ingresses ingresses_update (keyOf m) ingress w1 of
                           (err', w2) \<Rightarrow> (map_option Err err', w2))
                      else (Some (Err err), w1)
                  | (Inr found, w1) \<Rightarrow>
                      (case CopyIngressFields e ingress found of
                         (changed, foundIngress) \<Rightarrow>
                           if changed then
                             (case clientUpdate IngressKind ingresses ingresses_update
                                     (keyOf (ing_Meta foundIngress)) foundIngress w1 of
                                (err', w2) \<Rightarrow> (map_option Err err', w2))
                           else (None, w1))))
          else (None, w))"

text \<open>
  The last step: \<open>reflect.DeepEqual\<close> on two status values is equality of the records (the
  pointer fields are compared through their targets, the nil slice differs from the empty
  one).
\<close>

definition statusStep :: "SolrCloud \<Rightarrow> SolrCloudStatus \<Rightarrow> world \<Rightarrow> failure option \<times> world" where
  "statusStep instance newStatus w =
     (if Status instance \<noteq> newStatus then
        (case clientStatusUpdate (instance\<lparr>Status := newStatus\<rparr>) w of
           (Some err, w1) \<Rightarrow> (Some (Err err), w1)
         | (None, w1) \<Rightarrow> (None, w1))
      else (None, w))"

section \<open>\<open>Reconcile\<close>\<close>

text \<open>
  The pass from the test of the connection string to its end: workload set, status
  aggregation, ingress, status write.
\<close>

definition reconcileTail ::
  "env \<Rightarrow> SolrCloud \<Rightarrow> string list \<Rightarrow> labels \<Rightarrow> bool \<Rightarrow> SolrCloudStatus \<Rightarrow> world
     \<Rightarrow> failure option \<times> world" where
  "reconcileTail e instance solrNodeNames hostNameIpMap block newStatus w =
     (case statefulSetStep e instance hostNameIpMap block newStatus w of
        (Inl f, w1) \<Rightarrow> (Some f, w1)
      | (Inr st1, w1) \<Rightarrow>
          (case reconcileCloudStatus e instance st1 w1 of
             (Inl f, w2) \<Rightarrow> (Some f, w2)
           | (Inr st2, w2) \<Rightarrow>
               (case ingressStep e instance solrNodeNames w2 of
                  (Some f, w3) \<Rightarrow> (Some f, w3)
                | (None, w3) \<Rightarrow> statusStep instance st2 w3)))"

text \<open>
  The pass after the desired state is fetched and found normalised: coordination cluster,
  services, config map, then the tail.
\<close>

definition reconcileBody :: "env \<Rightarrow> SolrCloud \<Rightarrow> world \<Rightarrow> failure option \<times> world" where
  "reconcileBody e instance w =
     (case BusyBoxImage (Spec instance) of
        None \<Rightarrow> (Some Panic, w)
      | Some busyBoxImage \<Rightarrow>
          (case reconcileZk e instance emptyStatus w of
             ((Some f, newStatus), w1) \<Rightarrow> (Some f, w1)
           | ((None, newStatus), w1) \<Rightarrow>
               (case commonServiceStep e instance w1 of
                  (Some f, w2) \<Rightarrow> (Some f, w2)
                | (None, w2) \<Rightarrow>
                    (let solrNodeNames = GetAllSolrNodeNames e instance in
                     case nodeServicesStep e instance solrNodeNames w2 of
                       (Inl f, w3) \<Rightarrow> (Some f, w3)
                     | (Inr (block, hostNameIpMap), w3) \<Rightarrow>
                         (case headlessServiceStep e instance w3 of
                            (Some f, w4) \<Rightarrow> (Some f, w4)
                          | (None, w4) \<Rightarrow>
                              (case configMapStep e instance w4 of
                                 (Some f, w5) \<Rightarrow> (Some f, w5)
                               | (None, w5) \<Rightarrow>
                                   reconcileTail e instance solrNodeNames hostNameIpMap block
                                     newStatus w5))))))"

definition toOutcome :: "failure option \<Rightarrow> outcome" where
  "toOutcome r =
     (case r of
        None \<Rightarrow> Returned emptyResult None
      | Some (Err err) \<Rightarrow> Returned emptyResult (Some err)
      | Some Panic \<Rightarrow> Panicked)"

text \<open>\<open>Reconcile\<close> for the request \<open>req\<close>, the namespace and name of a SolrCloud.\<close>

definition Reconcile :: "env \<Rightarrow> key \<Rightarrow> world \<Rightarrow> outcome \<times> world" where
  "Reconcile e req w =
     (case clientGet SolrCloudKind solrClouds req w of
        (Inl err, w1) \<Rightarrow>
          if IsNotFound err then (Returned emptyResult None, w1)
          else (Returned emptyResult (Some err), w1)
      | (Inr fetched, w1) \<Rightarrow>
          (case WithDefaults e (IngressBaseUrl e) fetched of
             (changed, instance) \<Rightarrow>
               if changed then
                 (case clientUpdate SolrCloudKind solrClouds solrClouds_update
                         (keyOf (sc_Meta instance)) instance w1 of
                    (Some err, w2) \<Rightarrow> (Returned emptyResult (Some err), w2)
                  | (None, w2) \<Rightarrow> (Returned (emptyResult\<lparr>Requeue := True\<rparr>) None, w2))
               else
                 (case reconcileBody e instance w1 of
                    (r, w2) \<Rightarrow> (toOutcome r, w2))))"

section \<open>The metrics exporter: \<open>GenerateSolrPrometheusExporterDeployment\<close>\<close>

record SolrCloudReference =
  scr_Name :: string
  scr_Namespace :: string
  scr_ZookeeperConnectionInfo :: "ZookeeperConnectionInfo option"

record SolrReference =
  Cloud :: "SolrCloudReference option"
  Standalone :: "string option"

text \<open>
  A resource list is a map that may be nil. \<open>emptyPodOptions\<close> is \<open>solr.PodOptions{}\<close>.
\<close>

record ResourceRequirements =
  Limits :: "labels option"
  Requests :: "labels option"

record PodOptions =
  Affinity :: "string option"
  Resources :: ResourceRequirements

definition emptyPodOptions :: PodOptions where
  "emptyPodOptions = \<lparr>Affinity = None, Resources = \<lparr>Limits = None, Requests = None\<rparr>\<rparr>"

record CustomPrometheusKubeOptions =
  PodOptions :: "PodOptions option"
  DeploymentOptions :: "string option"
  ConfigMapOptions :: "string option"

record SolrPrometheusExporterSpec =
  SolrReference :: SolrReference
  Image :: "ContainerImage option"
  CustomPrometheusKubeOptions :: CustomPrometheusKubeOptions
  ExporterEntrypoint :: string
  NumThreads :: int
  ScrapeInterval :: int
  Config :: string

record SolrPrometheusExporter =
  spe_Meta :: ObjectMeta
  spe_Spec :: SolrPrometheusExporterSpec
  spe_Status_Ready :: bool

record SolrConnectionInfo =
  CloudZkConnnectionString :: string
  StandaloneAddress :: string

record ConfigMapVolume =
  vol_Name :: string
  vol_ConfigMapName :: string
  vol_Items :: "(string \<times> string) list"

record VolumeMount =
  vm_Name :: string
  vm_MountPath :: string
  vm_ReadOnly :: bool

record Probe =
  InitialDelaySeconds :: int
  PeriodSeconds :: int
  probe_Scheme :: string
  probe_Path :: string
  probe_Port :: int

record Container =
  c_Name :: string
  c_Image :: string
  c_ImagePullPolicy :: string
  c_Ports :: "(int \<times> string) list"
  c_VolumeMounts :: "VolumeMount list"
  c_Command :: "string list"
  c_Args :: "string list"
  c_LivenessProbe :: "Probe option"
  c_Resources :: ResourceRequirements

record Deployment =
  dep_Name :: string
  dep_Namespace :: string
  dep_Labels :: labels
  dep_MatchLabels :: labels
  dep_Replicas :: "int option"
  dep_TemplateLabels :: labels
  dep_TerminationGracePeriodSeconds :: "int option"
  dep_FSGroup :: "int option"
  dep_Volumes :: "ConfigMapVolume list"
  dep_Containers :: "Container list"
  dep_ImagePullSecrets :: "string list"
  dep_Affinity :: "string option"

definition SolrMetricsPort :: int where
  "SolrMetricsPort = 8080"

definition SolrMetricsPortName :: string where
  "SolrMetricsPortName = ''solr-metrics''"

definition DefaultPrometheusExporterEntrypoint :: string where
  "DefaultPrometheusExporterEntrypoint = ''/opt/solr/contrib/prometheus-exporter/bin/solr-exporter''"

definition SolrPrometheusExporterTechnologyLabel :: string where
  "SolrPrometheusExporterTechnologyLabel = ''solr-prometheus-exporter''"

text \<open>\<open>SharedLabelsWith\<close> copies the labels into a new map and adds the technology label.\<close>

definition SharedLabelsWith :: "SolrPrometheusExporter \<Rightarrow> labels \<Rightarrow> labels" where
  "SharedLabelsWith spe ls = (SolrPrometheusExporterTechnologyLabel, Name (spe_Meta spe)) # ls"

definition exporterSharedLabels :: "SolrPrometheusExporter \<Rightarrow> labels" where
  "exporterSharedLabels spe = SharedLabelsWith spe []"

definition MetricsDeploymentName :: "SolrPrometheusExporter \<Rightarrow> string" where
  "MetricsDeploymentName sc = Name (spe_Meta sc) @ ''-solr-metrics''"

definition MetricsConfigMapName :: "SolrPrometheusExporter \<Rightarrow> string" where
  "MetricsConfigMapName sc = Name (spe_Meta sc) @ ''-solr-metrics''"

text \<open>
  The generator takes the exporter by pointer: the result is the deployment (or the panic
  of reading the image through a nil pointer, which happens while the deployment literal is
  built) and the exporter as the call leaves it. \<open>podOptions\<close> is what the pointer
  \<open>PodOptions\<close> of the exporter points to after the initialisation. \<open>toImageName\<close> is
  the method \<open>ContainerImage.ToImageName\<close>, which is defined in another file.
\<close>

definition GenerateSolrPrometheusExporterDeployment ::
  "(ContainerImage \<Rightarrow> string) \<Rightarrow> SolrPrometheusExporter \<Rightarrow> SolrConnectionInfo
     \<Rightarrow> (failure + Deployment) \<times> SolrPrometheusExporter" where
  "GenerateSolrPrometheusExporterDeployment toImageName solrPrometheusExporter solrConnectionInfo =
     (let spec = spe_Spec solrPrometheusExporter;
          labels0 = (''technology'', SolrPrometheusExporterTechnologyLabel)
                      # SharedLabelsWith solrPrometheusExporter (Labels (spe_Meta solrPrometheusExporter));
          selectorLabels = (''technology'', SolrPrometheusExporterTechnologyLabel)
                      # exporterSharedLabels solrPrometheusExporter;
          args0 = [''-p'', strconv_Itoa SolrMetricsPort, ''-n'', strconv_Itoa (NumThreads spec)];
          args1 = (if ScrapeInterval spec > 0
                   then args0 @ [''-s'', strconv_Itoa (ScrapeInterval spec)] else args0);
          args2 = (if CloudZkConnnectionString solrConnectionInfo \<noteq> []
                   then args1 @ [''-z'', CloudZkConnnectionString solrConnectionInfo]
                   else if StandaloneAddress solrConnectionInfo \<noteq> []
                   then args1 @ [''-b'', StandaloneAddress solrConnectionInfo]
                   else args1);
          solrVolumes = (if Config spec \<noteq> []
                         then [\<lparr>vol_Name = ''solr-prometheus-exporter-xml'',
                                 vol_ConfigMapName = MetricsConfigMapName solrPrometheusExporter,
                                 vol_Items = [(''solr-prometheus-exporter.xml'',
                                               ''solr-prometheus-exporter.xml'')]\<rparr>]
                         else []);
          volumeMounts = (if Config spec \<noteq> []
                          then [\<lparr>vm_Name = ''solr-prometheus-exporter-xml'',
                                  vm_MountPath = ''/opt/solr-exporter'', vm_ReadOnly = True\<rparr>]
                          else []);
          exporterArgs = (if Config spec \<noteq> []
                          then args2 @ [''-f'', ''/opt/solr-exporter/solr-prometheus-exporter.xml'']
                          else args2 @ [''-f'',
                                 ''/opt/solr/contrib/prometheus-exporter/conf/solr-exporter-config.xml'']);
          entrypoint = (if ExporterEntrypoint spec \<noteq> [] then ExporterEntrypoint spec
                        else DefaultPrometheusExporterEntrypoint)
      in
      case Image spec of
        None \<Rightarrow> (Inl Panic, solrPrometheusExporter)
      | Some img \<Rightarrow>
          (let container =
                 \<lparr>c_Name = ''solr-prometheus-exporter'',
                  c_Image = toImageName img,
                  c_ImagePullPolicy = PullPolicy img,
                  c_Ports = [(SolrMetricsPort, SolrMetricsPortName)],
                  c_VolumeMounts = volumeMounts,
                  c_Command = [entrypoint],
                  c_Args = exporterArgs,
                  c_LivenessProbe =
                    Some \<lparr>InitialDelaySeconds = 20, PeriodSeconds = 10, probe_Scheme = ''HTTP'',
                          probe_Path = ''/metrics'', probe_Port = SolrMetricsPort\<rparr>,
                  c_Resources = \<lparr>Limits = None, Requests = None\<rparr>\<rparr>;
               deployment0 =
                 \<lparr>dep_Name = MetricsDeploymentName solrPrometheusExporter,
                  dep_Namespace = Namespace (spe_Meta solrPrometheusExporter),
                  dep_Labels = labels0,
                  dep_MatchLabels = selectorLabels,
                  dep_Replicas = Some 1,
                  dep_TemplateLabels = labels0,
                  dep_TerminationGracePeriodSeconds = Some 10,
                  dep_FSGroup = Some SolrMetricsPort,
                  dep_Volumes = solrVolumes,
                  dep_Containers = [container],
                  dep_ImagePullSecrets = [],
                  dep_Affinity = None\<rparr>;
               deployment1 =
                 (if ImagePullSecret img \<noteq> []
                  then deployment0\<lparr>dep_ImagePullSecrets := [ImagePullSecret img]\<rparr>
                  else deployment0);
               podOptions =
                 (case PodOptions (CustomPrometheusKubeOptions spec) of
                    None \<Rightarrow> emptyPodOptions
                  | Some given \<Rightarrow> given);
               exporter1 =
                 (if PodOptions (CustomPrometheusKubeOptions spec) = None
                  then solrPrometheusExporter
                         \<lparr>spe_Spec := spec
                            \<lparr>CustomPrometheusKubeOptions := (CustomPrometheusKubeOptions spec)
                               \<lparr>PodOptions := Some emptyPodOptions\<rparr>\<rparr>\<rparr>
                  else solrPrometheusExporter);
               deployment2 =
                 (if Affinity podOptions \<noteq> None
                  then deployment1\<lparr>dep_Affinity := Affinity podOptions\<rparr>
                  else deployment1);
               deployment3 =
                 (if Limits (Resources podOptions) \<noteq> None \<or> Requests (Resources podOptions) \<noteq> None
                  then deployment2\<lparr>dep_Containers :=
                         [container\<lparr>c_Resources := Resources podOptions\<rparr>]\<rparr>
                  else deployment2)
           in (Inr deployment3, exporter1)))"

section \<open>Observations on a pass\<close>

text \<open>The calls that address the replicated workload set.\<close>

definition isStatefulSetCall :: "call \<Rightarrow> bool" where
  "isStatefulSetCall c =
     (case c of
        GetCall k nm \<Rightarrow> k = StatefulSetKind
      | CreateCall k nm \<Rightarrow> k = StatefulSetKind
      | UpdateCall k nm \<Rightarrow> k = StatefulSetKind
      | ListPodsCall ns sel \<Rightarrow> False
      | StatusUpdateCall nm \<Rightarrow> False)"

text \<open>
  Between two states of the world the workload sets are untouched: the stored sets are the
  same and no call that addresses a workload set was added to the trace.
\<close>

definition statefulSetUntouched :: "world \<Rightarrow> world \<Rightarrow> bool" where
  "statefulSetUntouched w w' \<longleftrightarrow>
     statefulSets w' = statefulSets w
     \<and> filter isStatefulSetCall (trace w') = filter isStatefulSetCall (trace w)"

section \<open>A concrete deployment\<close>

text \<open>
  One instance of the parameters and of the world, on which the closed theorems below are
  evaluated: a cloud \<open>demo\<close> in namespace \<open>search\<close> with three replicas and an
  externally hosted coordination cluster, and three pods.
\<close>

text \<open>
  Modelled from the spec: \<open>solr.ImageVersion\<close> is defined in another file; the
  specification derives the running version of a pod "from its primary container's image
  tag", which is the text between the first and the second colon of the image name.
\<close>

definition exampleImageVersion :: "string \<Rightarrow> string" where
  "exampleImageVersion img =
     (case dropWhile (\<lambda>c. c \<noteq> CHR '':'') img of
        [] \<Rightarrow> []
      | c # rest \<Rightarrow> takeWhile (\<lambda>c. c \<noteq> CHR '':'') rest)"

definition exampleMeta :: "SolrCloud \<Rightarrow> string \<Rightarrow> ObjectMeta" where
  "exampleMeta sc suffix =
     \<lparr>Name = Name (sc_Meta sc) @ suffix, Namespace = Namespace (sc_Meta sc),
      Labels = [(''solr-cloud'', Name (sc_Meta sc))], OwnerReferences = []\<rparr>"

definition exampleEnv :: env where
  "exampleEnv =
     \<lparr>useZkCRD = True,
      IngressBaseUrl = ''example.com'',
      BackupRestoreVolumeName = ''backup-restore'',
      SolrTechnologyLabel = ''solr-cloud'',
      WithDefaults = (\<lambda>base sc. (False, sc)),
      SetControllerReference =
        (\<lambda>owner m. Inr (m\<lparr>OwnerReferences := [keyOf (sc_Meta owner)]\<rparr>)),
      ZkConnectionString =
        (\<lambda>st. InternalConnectionString (ZookeeperConnectionInfo st)
               @ ChRoot (ZookeeperConnectionInfo st)),
      ImageVersion = exampleImageVersion,
      SharedLabels = (\<lambda>sc. [(''solr-cloud'', Name (sc_Meta sc))]),
      GetAllSolrNodeNames =
        (\<lambda>sc. map (\<lambda>i. Name (sc_Meta sc) @ ''-solrcloud-'' @ decimal i)
                 [0 ..< nat (case Replicas (Spec sc) of None \<Rightarrow> 0 | Some r \<Rightarrow> r)]),
      UsesIndividualNodeServices =
        (\<lambda>sc. case External (Spec sc) of
                 None \<Rightarrow> False
               | Some ext \<Rightarrow> Method ext = Ingress \<and> \<not> HideNodes ext),
      UsesHeadlessService =
        (\<lambda>sc. case External (Spec sc) of
                 None \<Rightarrow> True
               | Some ext \<Rightarrow> Method ext \<noteq> Ingress \<or> HideNodes ext),
      AdvertisedNodeHost = (\<lambda>sc n. Namespace (sc_Meta sc) @ ''-'' @ n @ ''.example.com''),
      InternalNodeUrl = (\<lambda>sc n withPort. n @ ''.'' @ Namespace (sc_Meta sc)),
      ExternalNodeUrl = (\<lambda>sc n domain withPort. Namespace (sc_Meta sc) @ ''-'' @ n @ ''.'' @ domain),
      InternalCommonUrl =
        (\<lambda>sc withPort. Name (sc_Meta sc) @ ''-solrcloud-common.'' @ Namespace (sc_Meta sc)),
      ExternalCommonUrl =
        (\<lambda>sc domain withPort. Namespace (sc_Meta sc) @ ''-'' @ Name (sc_Meta sc) @ ''-solrcloud.'' @ domain),
      ZookeeperPortsClient = (\<lambda>zk. 2181),
      GenerateCommonService =
        (\<lambda>sc. \<lparr>svc_Meta = exampleMeta sc ''-solrcloud-common'', svc_Spec = ''common'',
                svc_ClusterIP = []\<rparr>),
      GenerateNodeService =
        (\<lambda>sc n. \<lparr>svc_Meta = (exampleMeta sc [])\<lparr>Name := n\<rparr>, svc_Spec = ''node'',
                  svc_ClusterIP = []\<rparr>),
      GenerateHeadlessService =
        (\<lambda>sc. \<lparr>svc_Meta = exampleMeta sc ''-solrcloud-headless'', svc_Spec = ''headless'',
                svc_ClusterIP = []\<rparr>),
      GenerateConfigMap =
        (\<lambda>sc. \<lparr>cm_Meta = exampleMeta sc ''-solrcloud-configmap'',
                cm_Data = [(''solr.xml'', ''<solr/>'')]\<rparr>),
      GenerateStatefulSet =
        (\<lambda>sc st hosts. \<lparr>sts_Meta = exampleMeta sc ''-solrcloud'',
                sts_Spec = InternalConnectionString (ZookeeperConnectionInfo st),
                sts_Status_Replicas = 0, sts_Status_ReadyReplicas = 0\<rparr>),
      GenerateIngress =
        (\<lambda>sc nodes base. \<lparr>ing_Meta = exampleMeta sc ''-solrcloud-common'', ing_Spec = base\<rparr>),
      GenerateZookeeperCluster =
        (\<lambda>sc pzk. \<lparr>zk_Meta = exampleMeta sc ''-solrcloud-zookeeper'', zk_Spec_Replicas = 3,
                zk_Spec = pzk_Zookeeper pzk, zk_Status_ExternalClientEndpoint = []\<rparr>),
      CopyServiceFields =
        (\<lambda>src dst. (svc_Spec dst \<noteq> svc_Spec src, dst\<lparr>svc_Spec := svc_Spec src\<rparr>)),
      CopyConfigMapFields =
        (\<lambda>src dst. (cm_Data dst \<noteq> cm_Data src, dst\<lparr>cm_Data := cm_Data src\<rparr>)),
      CopyStatefulSetFields =
        (\<lambda>src dst. (sts_Spec dst \<noteq> sts_Spec src, dst\<lparr>sts_Spec := sts_Spec src\<rparr>)),
      CopyIngressFields =
        (\<lambda>src dst. (ing_Spec dst \<noteq> ing_Spec src, dst\<lparr>ing_Spec := ing_Spec src\<rparr>)),
      CopyZookeeperClusterFields =
        (\<lambda>src dst. (zk_Spec dst \<noteq> zk_Spec src \<or> zk_Spec_Replicas dst \<noteq> zk_Spec_Replicas src,
                     dst\<lparr>zk_Spec := zk_Spec src, zk_Spec_Replicas := zk_Spec_Replicas src\<rparr>))\<rparr>"

definition exampleCloud :: SolrCloud where
  "exampleCloud =
     \<lparr>sc_Meta = \<lparr>Name = ''demo'', Namespace = ''search'', Labels = [], OwnerReferences = []\<rparr>,
      Spec =
        \<lparr>Replicas = Some 3,
         ZookeeperRef =
           \<lparr>ConnectionInfo =
              Some \<lparr>InternalConnectionString = ''zk-0.zk:2181'', ExternalConnectionString = None,
                    ChRoot = ''/demo''\<rparr>,
            ProvidedZookeeper = None\<rparr>,
         SolrImage = \<lparr>Repository = ''solr'', Tag = ''v2'', PullPolicy = ''IfNotPresent'',
                      ImagePullSecret = []\<rparr>,
         BusyBoxImage = Some \<lparr>Repository = ''busybox'', Tag = ''1.28'', PullPolicy = ''IfNotPresent'',
                      ImagePullSecret = []\<rparr>,
         External = None,
         BackupRestoreVolume = None\<rparr>,
      Status = emptyStatus\<rparr>"

definition examplePod :: "string \<Rightarrow> string \<Rightarrow> string list \<Rightarrow> Pod" where
  "examplePod name img volumes =
     \<lparr>pod_Meta = \<lparr>Name = name, Namespace = ''search'',
                  Labels = [(''solr-cloud'', ''demo''), (''technology'', ''solr-cloud'')],
                  OwnerReferences = []\<rparr>,
      pod_NodeName = ''worker-1'',
      pod_ContainerImages = [img],
      pod_VolumeNames = volumes,
      pod_ContainerReady = [True]\<rparr>"

definition exampleWorld :: world where
  "exampleWorld =
     \<lparr>solrClouds = [(''search'', ''demo'') \<mapsto> exampleCloud],
      services = Map.empty, configMaps = Map.empty, statefulSets = Map.empty,
      ingresses = Map.empty, zookeeperClusters = Map.empty,
      podItems = [examplePod ''pod-c'' ''solr:v2'' [''data''],
                  examplePod ''pod-a'' ''solr:v1'' [''data''],
                  examplePod ''pod-b'' ''solr:v1'' [''data'']],
      faults = [], trace = []\<rparr>"

section \<open>Observations on the listed pods\<close>

definition podName :: "Pod \<Rightarrow> string" where
  "podName p = Name (pod_Meta p)"

text \<open>The pods on which the loop panics: container statuses reported, no container.\<close>

definition podPanics :: "Pod \<Rightarrow> bool" where
  "podPanics p \<longleftrightarrow> pod_ContainerReady p \<noteq> [] \<and> pod_ContainerImages p = []"

text \<open>
  The versions that differ from the target, in the order of the given list: a version is
  observed on a pod that reports container statuses, from the image of its first container.
\<close>

definition divergentVersions :: "env \<Rightarrow> SolrCloud \<Rightarrow> Pod list \<Rightarrow> string list" where
  "divergentVersions e solrCloud pods =
     filter (\<lambda>v. v \<noteq> Tag (SolrImage (Spec solrCloud)))
       (map (\<lambda>p. ImageVersion e (hd (pod_ContainerImages p)))
          (filter (\<lambda>p. pod_ContainerReady p \<noteq> []) pods))"

text \<open>
  The specification's reading of the current version under skew: the first divergent
  version when the pods are taken in the order of their names.
\<close>

definition firstDivergentByName :: "env \<Rightarrow> SolrCloud \<Rightarrow> Pod list \<Rightarrow> string option" where
  "firstDivergentByName e solrCloud pods =
     (case divergentVersions e solrCloud (sort_key podName pods) of
        [] \<Rightarrow> None
      | v # vs \<Rightarrow> Some v)"

text \<open>The entry of the per-node map that the loop stores for a pod.\<close>

definition podNodeStatus :: "env \<Rightarrow> SolrCloud \<Rightarrow> Pod \<Rightarrow> SolrNodeStatus" where
  "podNodeStatus e solrCloud p =
     \<lparr>node_Name = podName p,
      node_NodeName = pod_NodeName p,
      node_InternalAddress = ''http://'' @ InternalNodeUrl e solrCloud (podName p) True,
      node_ExternalAddress =
        (case External (Spec solrCloud) of
           None \<Rightarrow> []
         | Some ext \<Rightarrow>
             if HideNodes ext then []
             else ''http://'' @ ExternalNodeUrl e solrCloud (podName p) (DomainName ext) True),
      node_Ready = (pod_ContainerReady p \<noteq> [] \<and> list_all (\<lambda>c. c) (pod_ContainerReady p)),
      node_Version =
        (if pod_ContainerReady p \<noteq> [] then ImageVersion e (hd (pod_ContainerImages p)) else [])\<rparr>"

text \<open>
  The specification's count for the backup flag: the pods whose volume list includes the
  backup volume.
\<close>

definition podsMountingBackup :: "env \<Rightarrow> Pod list \<Rightarrow> nat" where
  "podsMountingBackup e pods =
     length (filter (\<lambda>p. BackupRestoreVolumeName e \<in> set (pod_VolumeNames p)) pods)"

text \<open>The pair that the loop puts into the per-node map for a pod.\<close>

definition podEntry :: "env \<Rightarrow> SolrCloud \<Rightarrow> Pod \<Rightarrow> string \<times> SolrNodeStatus" where
  "podEntry e solrCloud p = (podName p, podNodeStatus e solrCloud p)"

text \<open>
  What the loop adds to \<open>backupRestoreReadyPods\<close>: one for every volume with the name of
  the backup volume, and nothing when the desired state declares no backup volume.
\<close>

definition backupVolumes :: "env \<Rightarrow> SolrCloud \<Rightarrow> Pod list \<Rightarrow> int" where
  "backupVolumes e solrCloud pods =
     (if BackupRestoreVolume (Spec solrCloud) \<noteq> None
      then int (length (filter (\<lambda>v. v = BackupRestoreVolumeName e)
                          (concat (map pod_VolumeNames pods))))
      else 0)"

section \<open>Observations on the per-node services\<close>

text \<open>
  The specification's reading of the per-node step: the service of every node of the
  topology is reconciled, one node after the other, and only an error of a node's service
  ends the walk; the result is the list of the addresses, one for every node.
\<close>

fun nodeAddresses ::
  "env \<Rightarrow> SolrCloud \<Rightarrow> string list \<Rightarrow> world \<Rightarrow> (error + string list) \<times> world" where
  "nodeAddresses e instance [] w = (Inr [], w)"
| "nodeAddresses e instance (nodeName # rest) w =
     (case reconcileNodeService e instance nodeName w of
        ((Some err, ip), w1) \<Rightarrow> (Inl err, w1)
      | ((None, ip), w1) \<Rightarrow>
          (case nodeAddresses e instance rest w1 of
             (Inl err, w2) \<Rightarrow> (Inl err, w2)
           | (Inr ips, w2) \<Rightarrow> (Inr (ip # ips), w2)))"

text \<open>
  The host map entries for the nodes whose address is resolved, the entry of a later node
  in front.
\<close>

definition resolvedHosts :: "env \<Rightarrow> SolrCloud \<Rightarrow> string list \<Rightarrow> string list \<Rightarrow> labels" where
  "resolvedHosts e instance nodes ips =
     rev (filter (\<lambda>(host, ip). ip \<noteq> [])
            (zip (map (AdvertisedNodeHost e instance) nodes) ips))"

text \<open>The number of separators \<open>,\<close> in a connection string.\<close>

definition commas :: "string \<Rightarrow> nat" where
  "commas s = length (filter (\<lambda>c. c = CHR '','') s)"

section \<open>Further instances of the concrete deployment\<close>

text \<open>The cloud whose external connection string names a host without a port.\<close>

definition exampleCloudNoPort :: SolrCloud where
  "exampleCloudNoPort =
     exampleCloud\<lparr>Spec := (Spec exampleCloud)\<lparr>ZookeeperRef :=
       \<lparr>ConnectionInfo =
          Some \<lparr>InternalConnectionString = ''zk-0'', ExternalConnectionString = None,
                ChRoot = ''/demo''\<rparr>,
        ProvidedZookeeper = None\<rparr>\<rparr>\<rparr>"

definition exampleStatusNoPort :: SolrCloudStatus where
  "exampleStatusNoPort =
     emptyStatus\<lparr>ZookeeperConnectionInfo :=
       \<lparr>InternalConnectionString = ''zk-0'', ExternalConnectionString = None,
        ChRoot = ''/demo''\<rparr>\<rparr>"

text \<open>The pods of the specification's example of version skew, as the platform lists them.\<close>

definition examplePods :: "Pod list" where
  "examplePods = [examplePod ''pod-c'' ''solr:v2'' [''data''],
                  examplePod ''pod-a'' ''solr:v1'' [''data''],
                  examplePod ''pod-b'' ''solr:v1'' [''data'']]"

text \<open>Two pods that run two different versions, neither of them the target \<open>v2\<close>.\<close>

definition skewedPods :: "Pod list" where
  "skewedPods = [examplePod ''pod-b'' ''solr:v3'' [''data''],
                 examplePod ''pod-a'' ''solr:v1'' [''data'']]"

text \<open>Three pods that mount the backup volume, and the same with one that does not.\<close>

definition mountingPods :: "Pod list" where
  "mountingPods = [examplePod ''pod-a'' ''solr:v2'' [''data'', ''backup-restore''],
                   examplePod ''pod-b'' ''solr:v2'' [''data'', ''backup-restore''],
                   examplePod ''pod-c'' ''solr:v2'' [''backup-restore'']]"

definition partlyMountingPods :: "Pod list" where
  "partlyMountingPods = [examplePod ''pod-a'' ''solr:v2'' [''data'', ''backup-restore''],
                         examplePod ''pod-b'' ''solr:v2'' [''data'', ''backup-restore''],
                         examplePod ''pod-c'' ''solr:v2'' [''data'']]"

text \<open>The cloud with a backup volume declared, and with a desired replica count of 0.\<close>

definition exampleCloudBackup :: SolrCloud where
  "exampleCloudBackup =
     exampleCloud\<lparr>Spec := (Spec exampleCloud)\<lparr>BackupRestoreVolume := Some ''nfs''\<rparr>\<rparr>"

definition exampleCloudBackupNoReplicas :: SolrCloud where
  "exampleCloudBackupNoReplicas =
     exampleCloud\<lparr>Spec := (Spec exampleCloud)\<lparr>BackupRestoreVolume := Some ''nfs'',
                                               Replicas := Some 0\<rparr>\<rparr>"

text \<open>
  The cloud with both an external connection and a provision request, with a provision
  request only, and with neither.
\<close>

definition exampleCloudBoth :: SolrCloud where
  "exampleCloudBoth =
     exampleCloud\<lparr>Spec := (Spec exampleCloud)\<lparr>ZookeeperRef :=
       (ZookeeperRef (Spec exampleCloud))
         \<lparr>ProvidedZookeeper := Some \<lparr>pzk_Zookeeper = ''ensemble'', pzk_ChRoot = ''/demo''\<rparr>\<rparr>\<rparr>\<rparr>"

definition exampleCloudProvided :: SolrCloud where
  "exampleCloudProvided =
     exampleCloud\<lparr>Spec := (Spec exampleCloud)\<lparr>ZookeeperRef :=
       \<lparr>ConnectionInfo = None,
        ProvidedZookeeper = Some \<lparr>pzk_Zookeeper = ''ensemble'', pzk_ChRoot = ''/demo''\<rparr>\<rparr>\<rparr>\<rparr>"

definition exampleCloudNoZk :: SolrCloud where
  "exampleCloudNoZk =
     exampleCloud\<lparr>Spec := (Spec exampleCloud)\<lparr>ZookeeperRef :=
       \<lparr>ConnectionInfo = None, ProvidedZookeeper = None\<rparr>\<rparr>\<rparr>"

text \<open>A live coordination cluster without an external endpoint, and the world with it.\<close>

definition exampleZookeeper :: ZookeeperCluster where
  "exampleZookeeper =
     \<lparr>zk_Meta = \<lparr>Name = ''demo-solrcloud-zookeeper'', Namespace = ''search'', Labels = [],
                 OwnerReferences = [(''search'', ''demo'')]\<rparr>,
      zk_Spec_Replicas = 3, zk_Spec = ''ensemble'', zk_Status_ExternalClientEndpoint = []\<rparr>"

definition exampleWorldZk :: world where
  "exampleWorldZk =
     exampleWorld\<lparr>zookeeperClusters :=
       [(''search'', ''demo-solrcloud-zookeeper'') \<mapsto> exampleZookeeper]\<rparr>"

text \<open>
  The cloud with one service per node and external addresses advertised, and a world in
  which the service of the second node has its address and the others do not exist yet.
\<close>

definition exampleCloudExternal :: SolrCloud where
  "exampleCloudExternal =
     exampleCloud\<lparr>Spec := (Spec exampleCloud)\<lparr>External :=
       Some \<lparr>Method = Ingress, UseExternalAddress = True, HideNodes = False,
             HideCommon = False, DomainName = ''example.com''\<rparr>\<rparr>\<rparr>"

definition exampleWorldNodes :: world where
  "exampleWorldNodes =
     exampleWorld\<lparr>services :=
       [(''search'', ''demo-solrcloud-1'') \<mapsto>
          \<lparr>svc_Meta = \<lparr>Name = ''demo-solrcloud-1'', Namespace = ''search'',
                        Labels = [(''solr-cloud'', ''demo'')],
                        OwnerReferences = [(''search'', ''demo'')]\<rparr>,
           svc_Spec = ''node'', svc_ClusterIP = ''10.0.0.7''\<rparr>]\<rparr>"

text \<open>An exporter without pod options, and an image naming function.\<close>

definition exampleToImageName :: "ContainerImage \<Rightarrow> string" where
  "exampleToImageName img = Repository img @ '':'' @ Tag img"

definition exampleExporter :: SolrPrometheusExporter where
  "exampleExporter =
     \<lparr>spe_Meta = \<lparr>Name = ''metrics'', Namespace = ''search'', Labels = [(''team'', ''search'')],
                  OwnerReferences = []\<rparr>,
      spe_Spec =
        \<lparr>SolrReference =
           \<lparr>Cloud = Some \<lparr>scr_Name = ''demo'', scr_Namespace = ''search'',
                          scr_ZookeeperConnectionInfo = None\<rparr>,
            Standalone = None\<rparr>,
         Image = Some \<lparr>Repository = ''solr'', Tag = ''v2'', PullPolicy = ''IfNotPresent'',
                       ImagePullSecret = []\<rparr>,
         CustomPrometheusKubeOptions =
           \<lparr>PodOptions = None, DeploymentOptions = None, ConfigMapOptions = None\<rparr>,
         ExporterEntrypoint = [],
         NumThreads = 1,
         ScrapeInterval = 60,
         Config = []\<rparr>,
      spe_Status_Ready = False\<rparr>"

section \<open>The workload set, the fetch and the status write\<close>

lemma clientGet_world:
  "snd (clientGet k store nm w) = w\<lparr>faults := tl (faults w), trace := trace w @ [GetCall k nm]\<rparr>"
  by (simp add: clientGet_def nextFault_def logCall_def split: list.splits option.splits)

lemma untouched_refl [simp]: "statefulSetUntouched w w"
  by (simp add: statefulSetUntouched_def)

lemma untouched_trans:
  "statefulSetUntouched w w1 \<Longrightarrow> statefulSetUntouched w1 w2 \<Longrightarrow> statefulSetUntouched w w2"
  by (simp add: statefulSetUntouched_def)

lemma clientGet_untouched:
  "clientGet k store nm w = (r, w') \<Longrightarrow> k \<noteq> StatefulSetKind \<Longrightarrow> statefulSetUntouched w w'"
  by (auto simp: clientGet_def nextFault_def logCall_def statefulSetUntouched_def
        isStatefulSetCall_def split: list.splits option.splits)

lemma clientCreate_untouched:
  "clientCreate k store upd nm x w = (r, w') \<Longrightarrow> k \<noteq> StatefulSetKind
     \<Longrightarrow> (\<And>f v. trace (upd f v) = trace v \<and> statefulSets (upd f v) = statefulSets v)
     \<Longrightarrow> statefulSetUntouched w w'"
  by (auto simp: clientCreate_def nextFault_def logCall_def statefulSetUntouched_def
        isStatefulSetCall_def split: list.splits option.splits)

lemma clientUpdate_untouched:
  "clientUpdate k store upd nm x w = (r, w') \<Longrightarrow> k \<noteq> StatefulSetKind
     \<Longrightarrow> (\<And>f v. trace (upd f v) = trace v \<and> statefulSets (upd f v) = statefulSets v)
     \<Longrightarrow> statefulSetUntouched w w'"
  by (auto simp: clientUpdate_def nextFault_def logCall_def statefulSetUntouched_def
        isStatefulSetCall_def split: list.splits option.splits)

lemma clientStatusUpdate_untouched:
  "clientStatusUpdate i w = (r, w') \<Longrightarrow> statefulSetUntouched w w'"
  by (auto simp: clientStatusUpdate_def nextFault_def logCall_def statefulSetUntouched_def
        isStatefulSetCall_def split: list.splits option.splits)

lemma clientListPods_untouched:
  "clientListPods ns sel w = (r, w') \<Longrightarrow> statefulSetUntouched w w'"
  by (auto simp: clientListPods_def nextFault_def logCall_def statefulSetUntouched_def
        isStatefulSetCall_def split: list.splits option.splits)

lemma commonServiceStep_untouched:
  "commonServiceStep e instance w = (r, w') \<Longrightarrow> statefulSetUntouched w w'"
  by (auto simp: commonServiceStep_def Let_def
        split: sum.splits prod.splits if_splits
        dest!: clientGet_untouched clientCreate_untouched clientUpdate_untouched
        intro: untouched_trans)

lemma headlessServiceStep_untouched:
  "headlessServiceStep e instance w = (r, w') \<Longrightarrow> statefulSetUntouched w w'"
  by (auto simp: headlessServiceStep_def Let_def
        split: sum.splits prod.splits if_splits
        dest!: clientGet_untouched clientCreate_untouched clientUpdate_untouched
        intro: untouched_trans)

lemma configMapStep_untouched:
  "configMapStep e instance w = (r, w') \<Longrightarrow> statefulSetUntouched w w'"
  by (auto simp: configMapStep_def Let_def
        split: sum.splits prod.splits if_splits
        dest!: clientGet_untouched clientCreate_untouched clientUpdate_untouched
        intro: untouched_trans)

lemma ingressStep_untouched:
  "ingressStep e instance ns w = (r, w') \<Longrightarrow> statefulSetUntouched w w'"
  by (auto simp: ingressStep_def Let_def
        split: sum.splits prod.splits if_splits option.splits
        dest!: clientGet_untouched clientCreate_untouched clientUpdate_untouched
        intro: untouched_trans)

lemma statusStep_untouched:
  "statusStep instance st w = (r, w') \<Longrightarrow> statefulSetUntouched w w'"
  by (auto simp: statusStep_def split: prod.splits if_splits option.splits
        dest!: clientStatusUpdate_untouched)

lemma reconcileCloudStatus_untouched:
  "reconcileCloudStatus e instance st w = (r, w') \<Longrightarrow> statefulSetUntouched w w'"
  by (auto simp: reconcileCloudStatus_def split: prod.splits sum.splits
        dest!: clientListPods_untouched)

lemma reconcileZk_untouched:
  "reconcileZk e instance st w = (r, w') \<Longrightarrow> statefulSetUntouched w w'"
  by (auto simp: reconcileZk_def Let_def
        split: sum.splits prod.splits if_splits option.splits
        dest!: clientGet_untouched clientCreate_untouched clientUpdate_untouched
        intro: untouched_trans)

lemma reconcileNodeService_untouched:
  "reconcileNodeService e instance n w = (r, w') \<Longrightarrow> statefulSetUntouched w w'"
  by (auto simp: reconcileNodeService_def Let_def
        split: sum.splits prod.splits if_splits option.splits
        dest!: clientGet_untouched clientCreate_untouched clientUpdate_untouched
        intro: untouched_trans)

lemma nodeServicesLoop_untouched:
  "nodeServicesLoop e instance ns block hmap w = (r, w') \<Longrightarrow> statefulSetUntouched w w'"
proof (induction ns arbitrary: block hmap w)
  case Nil
  then show ?case by simp
next
  case (Cons n ns)
  obtain err ip w1 where rn: "reconcileNodeService e instance n w = ((err, ip), w1)"
    by (metis prod.exhaust)
  have u1: "statefulSetUntouched w w1"
    using rn by (rule reconcileNodeService_untouched)
  show ?case
  proof (cases err)
    case (Some x)
    with Cons.prems rn u1 show ?thesis by auto
  next
    case None
    show ?thesis
    proof (cases "External (Spec instance)")
      case N: None
      with Cons.prems rn u1 None show ?thesis by auto
    next
      case (Some ext)
      with Cons.prems rn None
      have "\<exists>b h. nodeServicesLoop e instance ns b h w1 = (r, w')"
        by (auto split: if_splits)
      then obtain b h where "nodeServicesLoop e instance ns b h w1 = (r, w')" by blast
      then have "statefulSetUntouched w1 w'" by (rule Cons.IH)
      with u1 show ?thesis by (rule untouched_trans)
    qed
  qed
qed


lemma statefulSetStep_untouched_when_blocked:
  "\<not> strings_Contains (ZkConnectionString e newStatus) '':''
     \<Longrightarrow> statefulSetStep e instance hostNameIpMap block newStatus w = (Inr newStatus, w)"
  by (simp add: statefulSetStep_def)

lemma reconcileTail_untouched_when_blocked:
  assumes "\<not> strings_Contains (ZkConnectionString e newStatus) '':''"
    and "reconcileTail e instance names hostNameIpMap block newStatus w = (r, w')"
  shows "statefulSetUntouched w w'"
proof -
  have s: "statefulSetStep e instance hostNameIpMap block newStatus w = (Inr newStatus, w)"
    using assms(1) by (rule statefulSetStep_untouched_when_blocked)
  obtain r2 w2 where c: "reconcileCloudStatus e instance newStatus w = (r2, w2)"
    by (cases "reconcileCloudStatus e instance newStatus w")
  have u2: "statefulSetUntouched w w2"
    using c by (rule reconcileCloudStatus_untouched)
  show ?thesis
  proof (cases r2)
    case (Inl f)
    with assms(2) s c u2 show ?thesis by (simp add: reconcileTail_def)
  next
    case (Inr st2)
    obtain r3 w3 where i: "ingressStep e instance names w2 = (r3, w3)"
      by (cases "ingressStep e instance names w2")
    have u3: "statefulSetUntouched w w3"
      using u2 ingressStep_untouched [OF i] by (rule untouched_trans)
    show ?thesis
    proof (cases r3)
      case (Some f)
      with assms(2) s c Inr i u3 show ?thesis by (simp add: reconcileTail_def)
    next
      case None
      with assms(2) s c Inr i have "statusStep instance st2 w3 = (r, w')"
        by (simp add: reconcileTail_def)
      then have "statefulSetUntouched w3 w'" by (rule statusStep_untouched)
      with u3 show ?thesis by (rule untouched_trans)
    qed
  qed
qed

lemma reconcileBody_untouched_when_blocked:
  assumes z: "reconcileZk e instance emptyStatus w = ((None, newStatus), w1)"
    and nc: "\<not> strings_Contains (ZkConnectionString e newStatus) '':''"
    and b: "reconcileBody e instance w = (r, w')"
  shows "statefulSetUntouched w w'"
proof (cases "BusyBoxImage (Spec instance)")
  case None
  with b show ?thesis by (simp add: reconcileBody_def)
next
  case (Some busyBoxImage)
  have u1: "statefulSetUntouched w w1"
    using z by (rule reconcileZk_untouched)
  obtain r2 w2 where c: "commonServiceStep e instance w1 = (r2, w2)"
    by (cases "commonServiceStep e instance w1")
  have u2: "statefulSetUntouched w w2"
    using u1 commonServiceStep_untouched [OF c] by (rule untouched_trans)
  show ?thesis
  proof (cases r2)
    case f: (Some f)
    with b Some z c u2 show ?thesis by (simp add: reconcileBody_def)
  next
    case r2: None
    obtain r3 w3 where n: "nodeServicesStep e instance (GetAllSolrNodeNames e instance) w2 = (r3, w3)"
      by (cases "nodeServicesStep e instance (GetAllSolrNodeNames e instance) w2")
    have "statefulSetUntouched w2 w3"
      using n by (auto simp: nodeServicesStep_def split: if_splits dest: nodeServicesLoop_untouched)
    with u2 have u3: "statefulSetUntouched w w3" by (rule untouched_trans)
    show ?thesis
    proof (cases r3)
      case (Inl f)
      with b Some z c r2 n u3 show ?thesis by (simp add: reconcileBody_def)
    next
      case (Inr bh)
      obtain block hostNameIpMap where bh: "bh = (block, hostNameIpMap)" by (cases bh)
      obtain r4 w4 where h: "headlessServiceStep e instance w3 = (r4, w4)"
        by (cases "headlessServiceStep e instance w3")
      have u4: "statefulSetUntouched w w4"
        using u3 headlessServiceStep_untouched [OF h] by (rule untouched_trans)
      show ?thesis
      proof (cases r4)
        case f: (Some f)
        with b Some z c r2 n Inr bh h u4 show ?thesis by (simp add: reconcileBody_def)
      next
        case r4: None
        obtain r5 w5 where m: "configMapStep e instance w4 = (r5, w5)"
          by (cases "configMapStep e instance w4")
        have u5: "statefulSetUntouched w w5"
          using u4 configMapStep_untouched [OF m] by (rule untouched_trans)
        show ?thesis
        proof (cases r5)
          case f: (Some f)
          with b Some z c r2 n Inr bh h r4 m u5 show ?thesis by (simp add: reconcileBody_def)
        next
          case r5: None
          with b Some z c r2 n Inr bh h r4 m
          have "reconcileTail e instance (GetAllSolrNodeNames e instance) hostNameIpMap block
                  newStatus w5 = (r, w')"
            by (simp add: reconcileBody_def)
          with nc have "statefulSetUntouched w5 w'"
            by (rule reconcileTail_untouched_when_blocked)
          with u5 show ?thesis by (rule untouched_trans)
        qed
      qed
    qed
  qed
qed

text \<open>
  C1. In a pass whose computed status has a coordination connection string without a
  \<open>:\<close>, the workload-set step returns no error and leaves the status and the world as they
  are, whatever the block flag and the host map; and the rest of the pass, and the whole
  pass that computed this status in \<open>reconcileZk\<close>, neither change a stored workload set
  nor issue a get, create or update of one.
\<close>

theorem workload_set_deferred_without_connection_string:
  assumes "\<not> strings_Contains (ZkConnectionString e newStatus) '':''"
  shows "statefulSetStep e instance hostNameIpMap block newStatus w = (Inr newStatus, w)
    \<and> statefulSetUntouched w
         (snd (reconcileTail e instance solrNodeNames hostNameIpMap block newStatus w))
    \<and> (reconcileZk e instance emptyStatus w0 = ((None, newStatus), w1)
         \<longrightarrow> statefulSetUntouched w0 (snd (reconcileBody e instance w0)))"
proof (intro conjI impI)
  show "statefulSetStep e instance hostNameIpMap block newStatus w = (Inr newStatus, w)"
    using assms by (rule statefulSetStep_untouched_when_blocked)
  show "statefulSetUntouched w
          (snd (reconcileTail e instance solrNodeNames hostNameIpMap block newStatus w))"
    using assms by (rule reconcileTail_untouched_when_blocked) (rule prod.collapse [symmetric])
  assume "reconcileZk e instance emptyStatus w0 = ((None, newStatus), w1)"
  then show "statefulSetUntouched w0 (snd (reconcileBody e instance w0))"
    using assms by (rule reconcileBody_untouched_when_blocked) (rule prod.collapse [symmetric])
qed


theorem workload_set_deferred_witness:
  "\<not> strings_Contains (ZkConnectionString exampleEnv exampleStatusNoPort) '':''
   \<and> reconcileZk exampleEnv exampleCloudNoPort emptyStatus exampleWorld
       = ((None, exampleStatusNoPort), exampleWorld)
   \<and> statefulSetStep exampleEnv exampleCloudNoPort [] False exampleStatusNoPort exampleWorld
       = (Inr exampleStatusNoPort, exampleWorld)
   \<and> statefulSetUntouched exampleWorld
        (snd (reconcileTail exampleEnv exampleCloudNoPort [] [] False exampleStatusNoPort
                exampleWorld))
   \<and> statefulSetUntouched exampleWorld (snd (reconcileBody exampleEnv exampleCloudNoPort exampleWorld))
   \<and> fst (reconcileBody exampleEnv exampleCloudNoPort exampleWorld) = None"
proof -
  have h: "\<not> strings_Contains (ZkConnectionString exampleEnv exampleStatusNoPort) '':''"
    by (simp add: exampleEnv_def exampleStatusNoPort_def)
  have z: "reconcileZk exampleEnv exampleCloudNoPort emptyStatus exampleWorld
             = ((None, exampleStatusNoPort), exampleWorld)"
    by (simp add: reconcileZk_def exampleCloudNoPort_def exampleStatusNoPort_def)
  have ok: "fst (reconcileBody exampleEnv exampleCloudNoPort exampleWorld) = None"
    by code_simp
  show ?thesis
    using h z ok
      workload_set_deferred_without_connection_string
        [of exampleEnv exampleStatusNoPort exampleCloudNoPort "[]" False exampleWorld "[]"
            exampleWorld exampleWorld]
    by simp
qed

text \<open>
  C7. When the fetch of the desired state answers not-found, \<open>Reconcile\<close> returns the empty
  result (no requeue) and no error, and the only thing that happened to the world is that
  one fetch; when the fetch fails with any other error, \<open>Reconcile\<close> returns that error
  to its caller, again after that one fetch only.
\<close>

theorem Reconcile_fetch_not_found_or_error:
  "(fst (clientGet SolrCloudKind solrClouds req w) = Inl NotFound \<longrightarrow>
      Reconcile e req w =
        (Returned \<lparr>Requeue = False, RequeueAfter = 0\<rparr> None,
         w\<lparr>faults := tl (faults w), trace := trace w @ [GetCall SolrCloudKind req]\<rparr>))
   \<and> (\<forall>err. fst (clientGet SolrCloudKind solrClouds req w) = Inl err \<and> err \<noteq> NotFound \<longrightarrow>
      Reconcile e req w =
        (Returned \<lparr>Requeue = False, RequeueAfter = 0\<rparr> (Some err),
         w\<lparr>faults := tl (faults w), trace := trace w @ [GetCall SolrCloudKind req]\<rparr>))"
proof -
  obtain r w1 where g: "clientGet SolrCloudKind solrClouds req w = (r, w1)"
    by (cases "clientGet SolrCloudKind solrClouds req w")
  have w1: "w1 = w\<lparr>faults := tl (faults w), trace := trace w @ [GetCall SolrCloudKind req]\<rparr>"
    using clientGet_world [of SolrCloudKind solrClouds req w] g by simp
  show ?thesis
    using g w1 by (auto simp: Reconcile_def IsNotFound_def emptyResult_def)
qed

theorem Reconcile_fetch_witness:
  "fst (clientGet SolrCloudKind solrClouds (''search'', ''gone'') exampleWorld) = Inl NotFound
   \<and> Reconcile exampleEnv (''search'', ''gone'') exampleWorld
       = (Returned \<lparr>Requeue = False, RequeueAfter = 0\<rparr> None,
          exampleWorld\<lparr>faults := [], trace := [GetCall SolrCloudKind (''search'', ''gone'')]\<rparr>)
   \<and> fst (clientGet SolrCloudKind solrClouds (''search'', ''demo'')
             (exampleWorld\<lparr>faults := [Some (OtherError ''timeout'')]\<rparr>))
       = Inl (OtherError ''timeout'')
   \<and> Reconcile exampleEnv (''search'', ''demo'')
         (exampleWorld\<lparr>faults := [Some (OtherError ''timeout'')]\<rparr>)
       = (Returned \<lparr>Requeue = False, RequeueAfter = 0\<rparr> (Some (OtherError ''timeout'')),
          exampleWorld\<lparr>faults := [], trace := [GetCall SolrCloudKind (''search'', ''demo'')]\<rparr>)"
proof -
  have a: "fst (clientGet SolrCloudKind solrClouds (''search'', ''gone'') exampleWorld)
             = Inl NotFound"
    by (simp add: clientGet_def nextFault_def logCall_def exampleWorld_def)
  have b: "fst (clientGet SolrCloudKind solrClouds (''search'', ''demo'')
                  (exampleWorld\<lparr>faults := [Some (OtherError ''timeout'')]\<rparr>))
             = Inl (OtherError ''timeout'')"
    by (simp add: clientGet_def nextFault_def logCall_def)
  have t: "faults exampleWorld = []" "trace exampleWorld = []"
    by (simp_all add: exampleWorld_def)
  show ?thesis
    using a b t
      Reconcile_fetch_not_found_or_error [of "(''search'', ''gone'')" exampleWorld exampleEnv]
      Reconcile_fetch_not_found_or_error
        [of "(''search'', ''demo'')" "exampleWorld\<lparr>faults := [Some (OtherError ''timeout'')]\<rparr>"
            exampleEnv]
    by simp
qed

text \<open>
  C8. The last step of a pass issues a write to the status sub-resource exactly when the
  computed status differs from the status of the fetched object: the step adds that one
  call to the trace when they differ and nothing when they are equal. When they are equal
  the world, and with it the stored status, is left as it was; when they differ and the
  write succeeds, the stored status is the computed one.
\<close>

theorem status_written_iff_changed:
  "trace (snd (statusStep instance newStatus w))
     = trace w @ (if Status instance \<noteq> newStatus
                  then [StatusUpdateCall (keyOf (sc_Meta instance))] else [])
   \<and> (Status instance = newStatus \<longrightarrow> statusStep instance newStatus w = (None, w))
   \<and> (Status instance \<noteq> newStatus \<and> fst (statusStep instance newStatus w) = None \<longrightarrow>
        map_option Status (solrClouds (snd (statusStep instance newStatus w))
                             (keyOf (sc_Meta instance))) = Some newStatus)"
  by (auto simp: statusStep_def clientStatusUpdate_def nextFault_def logCall_def keyOf_def
        split: list.splits option.splits)

theorem status_written_witness:
  "Status exampleCloud \<noteq> exampleStatusNoPort
   \<and> statusStep exampleCloud exampleStatusNoPort exampleWorld
       = (None, exampleWorld
            \<lparr>solrClouds := (solrClouds exampleWorld)
               ((''search'', ''demo'') \<mapsto> exampleCloud\<lparr>Status := exampleStatusNoPort\<rparr>),
             trace := [StatusUpdateCall (''search'', ''demo'')]\<rparr>)
   \<and> map_option Status (solrClouds (snd (statusStep exampleCloud exampleStatusNoPort exampleWorld))
        (''search'', ''demo'')) = Some exampleStatusNoPort
   \<and> Status (exampleCloud\<lparr>Status := exampleStatusNoPort\<rparr>) = exampleStatusNoPort
   \<and> statusStep (exampleCloud\<lparr>Status := exampleStatusNoPort\<rparr>) exampleStatusNoPort exampleWorld
       = (None, exampleWorld)"
proof -
  have d: "Status exampleCloud \<noteq> exampleStatusNoPort"
    by (simp add: exampleCloud_def exampleStatusNoPort_def emptyStatus_def
          emptyZookeeperConnectionInfo_def)
  have k: "keyOf (sc_Meta exampleCloud) = (''search'', ''demo'')"
    by (simp add: keyOf_def exampleCloud_def)
  have s: "statusStep exampleCloud exampleStatusNoPort exampleWorld
       = (None, exampleWorld
            \<lparr>solrClouds := (solrClouds exampleWorld)
               ((''search'', ''demo'') \<mapsto> exampleCloud\<lparr>Status := exampleStatusNoPort\<rparr>),
             trace := [StatusUpdateCall (''search'', ''demo'')]\<rparr>)"
    using d k by (simp add: statusStep_def clientStatusUpdate_def nextFault_def logCall_def
          exampleWorld_def)
  show ?thesis
    using d k s
      status_written_iff_changed [of exampleCloud exampleStatusNoPort exampleWorld]
      status_written_iff_changed
        [of "exampleCloud\<lparr>Status := exampleStatusNoPort\<rparr>" exampleStatusNoPort exampleWorld]
    by simp
qed

section \<open>The status aggregator\<close>

lemma foldl_and: "foldl (\<lambda>ready c. ready \<and> c) b xs = (b \<and> list_all (\<lambda>c. c) xs)"
  by (induction xs arbitrary: b) auto

lemma podEntry_sel [simp]:
  "fst (podEntry e sc p) = podName p" "snd (podEntry e sc p) = podNodeStatus e sc p"
  by (simp_all add: podEntry_def)

lemma podLoopBody_eq:
  "\<not> podPanics p \<Longrightarrow>
   podLoopBody e sc p acc =
     Inr \<lparr>otherVersions = otherVersions acc @ divergentVersions e sc [p],
          nodeNames = nodeNames acc @ [podName p],
          nodeStatusMap = (nodeStatusMap acc)(podName p \<mapsto> podNodeStatus e sc p),
          backupRestoreReadyPods = backupRestoreReadyPods acc + backupVolumes e sc [p]\<rparr>"
  by (cases "pod_ContainerImages p")
     (auto simp: podLoopBody_def podPanics_def divergentVersions_def podName_def
        podNodeStatus_def backupVolumes_def emptyNodeStatus_def Let_def foldl_and
        split: option.splits)

lemma podLoopBody_panic: "podPanics p \<Longrightarrow> podLoopBody e sc p acc = Inl Panic"
  by (simp add: podLoopBody_def podPanics_def Let_def)

lemma divergentVersions_Cons:
  "divergentVersions e sc (p # ps) = divergentVersions e sc [p] @ divergentVersions e sc ps"
  by (simp add: divergentVersions_def)

lemma backupVolumes_Cons:
  "backupVolumes e sc (p # ps) = backupVolumes e sc [p] + backupVolumes e sc ps"
  by (simp add: backupVolumes_def)

lemma podLoop_eq:
  "\<forall>p\<in>set pods. \<not> podPanics p \<Longrightarrow>
   podLoop e sc pods acc =
     Inr \<lparr>otherVersions = otherVersions acc @ divergentVersions e sc pods,
          nodeNames = nodeNames acc @ map podName pods,
          nodeStatusMap = nodeStatusMap acc ++ map_of (rev (map (podEntry e sc) pods)),
          backupRestoreReadyPods = backupRestoreReadyPods acc + backupVolumes e sc pods\<rparr>"
proof (induction pods arbitrary: acc)
  case Nil
  then show ?case by (simp add: divergentVersions_def backupVolumes_def)
next
  case (Cons p ps)
  define acc' where "acc' =
     \<lparr>otherVersions = otherVersions acc @ divergentVersions e sc [p],
      nodeNames = nodeNames acc @ [podName p],
      nodeStatusMap = (nodeStatusMap acc)(podName p \<mapsto> podNodeStatus e sc p),
      backupRestoreReadyPods = backupRestoreReadyPods acc + backupVolumes e sc [p]\<rparr>"
  have body: "podLoopBody e sc p acc = Inr acc'"
    using Cons.prems by (simp add: podLoopBody_eq acc'_def)
  have "podLoop e sc (p # ps) acc = podLoop e sc ps acc'"
    using body by simp
  also have "\<dots> = Inr \<lparr>otherVersions = otherVersions acc' @ divergentVersions e sc ps,
          nodeNames = nodeNames acc' @ map podName ps,
          nodeStatusMap = nodeStatusMap acc' ++ map_of (rev (map (podEntry e sc) ps)),
          backupRestoreReadyPods = backupRestoreReadyPods acc' + backupVolumes e sc ps\<rparr>"
    using Cons.prems by (intro Cons.IH) simp
  finally have eq: "podLoop e sc (p # ps) acc =
       Inr \<lparr>otherVersions = otherVersions acc' @ divergentVersions e sc ps,
          nodeNames = nodeNames acc' @ map podName ps,
          nodeStatusMap = nodeStatusMap acc' ++ map_of (rev (map (podEntry e sc) ps)),
          backupRestoreReadyPods = backupRestoreReadyPods acc' + backupVolumes e sc ps\<rparr>" .
  show ?case
    unfolding eq
    by (simp add: acc'_def divergentVersions_Cons [of e sc p ps] backupVolumes_Cons [of e sc p ps]
          )
qed

lemma podLoop_panic:
  "\<exists>p\<in>set pods. podPanics p \<Longrightarrow> podLoop e sc pods acc = Inl Panic"
proof (induction pods arbitrary: acc)
  case Nil
  then show ?case by simp
next
  case (Cons p ps)
  show ?case
  proof (cases "podPanics p")
    case True
    then show ?thesis by (simp add: podLoopBody_panic)
  next
    case False
    with Cons show ?thesis by (simp add: podLoopBody_eq)
  qed
qed


lemma podEntry_lookup:
  assumes "n \<in> set (map podName pods)"
  obtains p where "p \<in> set pods" "podName p = n"
    "(m ++ map_of (rev (map (podEntry e sc) pods))) n = Some (podNodeStatus e sc p)"
proof -
  from assms obtain q where q: "q \<in> set pods" "podName q = n" by auto
  then have "(n, podNodeStatus e sc q) \<in> set (rev (map (podEntry e sc) pods))"
    unfolding podEntry_def by force
  then have "\<exists>s. map_of (rev (map (podEntry e sc) pods)) n = Some s"
    by (rule weak_map_of_SomeI)
  then obtain s where s: "map_of (rev (map (podEntry e sc) pods)) n = Some s" ..
  then have "(n, s) \<in> set (rev (map (podEntry e sc) pods))"
    by (rule map_of_SomeD)
  then obtain p where p: "p \<in> set pods" "(n, s) = podEntry e sc p" by auto
  then have ps: "podName p = n" "s = podNodeStatus e sc p"
    unfolding podEntry_def by simp_all
  have "(m ++ map_of (rev (map (podEntry e sc) pods))) n = Some s"
    using s by (rule map_add_find_right)
  then have "(m ++ map_of (rev (map (podEntry e sc) pods))) n = Some (podNodeStatus e sc p)"
    by (simp only: ps(2))
  with p(1) ps(1) show ?thesis by (rule that)
qed

lemma sort_names_of_lookup:
  "set ns \<subseteq> set (map podName pods) \<Longrightarrow>
   map node_Name (map (lookupNodeStatus (m ++ map_of (rev (map (podEntry e sc) pods)))) ns) = ns"
proof (induction ns)
  case Nil
  then show ?case by simp
next
  case (Cons n ns)
  then have "n \<in> set (map podName pods)" by simp
  then obtain p where "podName p = n"
    "(m ++ map_of (rev (map (podEntry e sc) pods))) n = Some (podNodeStatus e sc p)"
    by (rule podEntry_lookup)
  then have "node_Name (lookupNodeStatus (m ++ map_of (rev (map (podEntry e sc) pods))) n) = n"
    by (simp add: lookupNodeStatus_def podNodeStatus_def)
  with Cons show ?case by simp
qed

lemma map_of_entries_perm:
  assumes "distinct (map podName pods)" "mset pods' = mset pods"
  shows "map_of (rev (map (podEntry e sc) pods')) = map_of (rev (map (podEntry e sc) pods))"
proof -
  have f: "map fst (map (podEntry e sc) ps) = map podName ps" for ps
    by (induction ps) simp_all
  have "mset (map podName pods') = mset (map podName pods)"
    by (simp only: mset_map assms(2))
  then have d': "distinct (map podName pods')"
    using assms(1) mset_eq_imp_distinct_iff by blast
  have "set pods' = set pods"
    using assms(2) by (rule mset_eq_setD)
  then have "set (rev (map (podEntry e sc) pods')) = set (rev (map (podEntry e sc) pods))"
    by simp
  moreover have "distinct (map fst (rev (map (podEntry e sc) pods')))"
    using d' by (simp only: rev_map [symmetric] f distinct_rev)
  moreover have "distinct (map fst (rev (map (podEntry e sc) pods)))"
    using assms(1) by (simp only: rev_map [symmetric] f distinct_rev)
  ultimately show ?thesis by (simp only: map_of_inject_set)
qed

lemma statusFromPods_nodes:
  assumes "statusFromPods e sc pods st = Inr st'"
  shows "\<forall>p\<in>set pods. \<not> podPanics p"
    and "SolrNodes st' = Some (map (lookupNodeStatus (map_of (rev (map (podEntry e sc) pods))))
                                (sort (map podName pods)))"
proof -
  show np: "\<forall>p\<in>set pods. \<not> podPanics p"
  proof (rule ccontr)
    assume "\<not> ?thesis"
    then have "podLoop e sc pods initialPodAcc = Inl Panic" by (intro podLoop_panic) simp
    with assms show False by (simp add: statusFromPods_def)
  qed
  show "SolrNodes st' = Some (map (lookupNodeStatus (map_of (rev (map (podEntry e sc) pods))))
                                (sort (map podName pods)))"
  proof -
    obtain acc where acc: "podLoop e sc pods initialPodAcc = Inr acc"
      and nm: "nodeNames acc = map podName pods"
      and mp: "nodeStatusMap acc = map_of (rev (map (podEntry e sc) pods))"
      using podLoop_eq [OF np, of e sc initialPodAcc] by (simp add: initialPodAcc_def)
    show ?thesis
    proof (cases "Replicas (Spec sc)")
      case None
      with assms acc show ?thesis by (simp add: statusFromPods_def)
    next
      case (Some r)
      with assms acc nm mp show ?thesis
        by (cases "otherVersions acc"; cases "External (Spec sc)")
           (auto simp: statusFromPods_def Let_def)
    qed
  qed
qed


lemma statusFromPods_eq:
  assumes np: "\<forall>p\<in>set pods. \<not> podPanics p" and r: "Replicas (Spec sc) = Some r"
  shows "statusFromPods e sc pods st =
     Inr (st\<lparr>SolrNodes := Some (map (lookupNodeStatus (map_of (rev (map (podEntry e sc) pods))))
                                (sort (map podName pods))),
             BackupRestoreReady :=
               (BackupRestoreReady st
                \<or> (backupVolumes e sc pods = r \<and> backupVolumes e sc pods > 0)),
             TargetVersion :=
               (if divergentVersions e sc pods = [] then [] else Tag (SolrImage (Spec sc))),
             Version :=
               (if divergentVersions e sc pods = [] then Tag (SolrImage (Spec sc))
                else hd (divergentVersions e sc pods)),
             InternalCommonAddress := ''http://'' @ InternalCommonUrl e sc True,
             ExternalCommonAddress :=
               (case External (Spec sc) of
                  None \<Rightarrow> ExternalCommonAddress st
                | Some ext \<Rightarrow>
                    if HideCommon ext then ExternalCommonAddress st
                    else Some (''http://'' @ ExternalCommonUrl e sc (DomainName ext) True))\<rparr>)"
proof -
  define acc where "acc =
     \<lparr>otherVersions = divergentVersions e sc pods,
      nodeNames = map podName pods,
      nodeStatusMap = map_of (rev (map (podEntry e sc) pods)),
      backupRestoreReadyPods = backupVolumes e sc pods\<rparr>"
  have acc: "podLoop e sc pods initialPodAcc = Inr acc"
    using podLoop_eq [OF np, of e sc initialPodAcc] by (simp add: initialPodAcc_def acc_def)
  have ov: "otherVersions acc = divergentVersions e sc pods"
    and nm: "nodeNames acc = map podName pods"
    and mp: "nodeStatusMap acc = map_of (rev (map (podEntry e sc) pods))"
    and bk: "backupRestoreReadyPods acc = backupVolumes e sc pods"
    by (simp_all add: acc_def)
  have cond: "(if c then x\<lparr>BackupRestoreReady := True\<rparr> else x)
              = x\<lparr>BackupRestoreReady := (BackupRestoreReady x \<or> c)\<rparr>"
    for x :: SolrCloudStatus and c
    by (cases c) simp_all
  show ?thesis
  proof (cases "divergentVersions e sc pods")
    case Nil
    show ?thesis
    proof (cases "External (Spec sc)")
      case None
      show ?thesis
        unfolding statusFromPods_def acc
        by (simp add: r ov nm mp bk Nil None Let_def cond del: if_split)
    next
      case (Some ext)
      show ?thesis
        unfolding statusFromPods_def acc
        by (simp add: r ov nm mp bk Nil Some Let_def cond)
    qed
  next
    case (Cons v vs)
    show ?thesis
    proof (cases "External (Spec sc)")
      case None
      show ?thesis
        unfolding statusFromPods_def acc
        by (simp add: r ov nm mp bk Cons None Let_def cond)
    next
      case (Some ext)
      show ?thesis
        unfolding statusFromPods_def acc
        by (simp add: r ov nm mp bk Cons Some Let_def cond)
    qed
  qed
qed


lemma statusFromPods_InrD:
  assumes "statusFromPods e sc pods st = Inr st'"
  obtains r where "\<forall>p\<in>set pods. \<not> podPanics p" "Replicas (Spec sc) = Some r"
proof -
  have np: "\<forall>p\<in>set pods. \<not> podPanics p"
    using assms by (rule statusFromPods_nodes)
  have "Replicas (Spec sc) \<noteq> None"
  proof
    assume "Replicas (Spec sc) = None"
    then have "statusFromPods e sc pods st = Inl Panic"
      using podLoop_eq [OF np, of e sc initialPodAcc]
      by (simp add: statusFromPods_def Let_def)
    with assms show False by simp
  qed
  then obtain r where "Replicas (Spec sc) = Some r" by auto
  with np show ?thesis by (rule that)
qed

text \<open>
  C9. The per-node status array of the aggregator carries the pod names in ascending
  lexicographic order: its names are the sorted list of the names of the listed pods. When
  the names of the listed pods are distinct, as the names of the pods of one namespace are,
  every list with the same pods in another order gives the same per-node array, whatever
  the status the aggregator starts from.
\<close>

theorem node_status_sorted_and_order_independent:
  assumes "statusFromPods e sc pods st = Inr st'"
  shows "(\<exists>nodes. SolrNodes st' = Some nodes
            \<and> sorted (map node_Name nodes)
            \<and> map node_Name nodes = sort (map podName pods))
       \<and> (\<forall>pods' stb. distinct (map podName pods) \<and> mset pods' = mset pods \<longrightarrow>
            (\<exists>st''. statusFromPods e sc pods' stb = Inr st'' \<and> SolrNodes st'' = SolrNodes st'))"
proof (intro conjI allI impI)
  let ?M = "map_of (rev (map (podEntry e sc) pods))"
  have np: "\<forall>p\<in>set pods. \<not> podPanics p"
    using assms by (rule statusFromPods_nodes)
  have nodes: "SolrNodes st' = Some (map (lookupNodeStatus ?M) (sort (map podName pods)))"
    using assms by (rule statusFromPods_nodes)
  have "map node_Name (map (lookupNodeStatus (Map.empty ++ ?M)) (sort (map podName pods)))
          = sort (map podName pods)"
    by (rule sort_names_of_lookup) simp
  then have names: "map node_Name (map (lookupNodeStatus ?M) (sort (map podName pods)))
          = sort (map podName pods)"
    by simp
  show "\<exists>nodes. SolrNodes st' = Some nodes \<and> sorted (map node_Name nodes)
          \<and> map node_Name nodes = sort (map podName pods)"
    using nodes names by (simp del: map_map)
next
  fix pods' stb
  assume h: "distinct (map podName pods) \<and> mset pods' = mset pods"
  have np: "\<forall>p\<in>set pods. \<not> podPanics p"
    using assms by (rule statusFromPods_nodes)
  have nodes: "SolrNodes st' = Some (map (lookupNodeStatus (map_of (rev (map (podEntry e sc) pods))))
                                      (sort (map podName pods)))"
    using assms by (rule statusFromPods_nodes)
  obtain r where r: "Replicas (Spec sc) = Some r"
    using assms by (rule statusFromPods_InrD)
  have "set pods' = set pods" using h [THEN conjunct2] by (rule mset_eq_setD)
  with np have np': "\<forall>p\<in>set pods'. \<not> podPanics p" by simp
  obtain st'' where st'': "statusFromPods e sc pods' stb = Inr st''"
    using statusFromPods_eq [OF np' r, of e stb] by simp
  have nodes': "SolrNodes st'' = Some (map (lookupNodeStatus (map_of (rev (map (podEntry e sc) pods'))))
                                      (sort (map podName pods')))"
    using st'' by (rule statusFromPods_nodes)
  have m: "map_of (rev (map (podEntry e sc) pods')) = map_of (rev (map (podEntry e sc) pods))"
    using h by (intro map_of_entries_perm) simp_all
  have "mset (map podName pods') = mset (map podName pods)"
    using h by (simp only: mset_map)
  then have s: "sort (map podName pods') = sort (map podName pods)"
    by (intro properties_for_sort) simp_all
  show "\<exists>st''. statusFromPods e sc pods' stb = Inr st'' \<and> SolrNodes st'' = SolrNodes st'"
    using st'' nodes nodes' m s by simp
qed

theorem node_status_sorted_witness:
  "statusFromPods exampleEnv exampleCloud examplePods emptyStatus
     = Inr (projr (statusFromPods exampleEnv exampleCloud examplePods emptyStatus))
   \<and> map node_Name (the (SolrNodes (projr (statusFromPods exampleEnv exampleCloud examplePods
           emptyStatus)))) = [''pod-a'', ''pod-b'', ''pod-c'']
   \<and> distinct (map podName examplePods)
   \<and> mset (rev examplePods) = mset examplePods
   \<and> SolrNodes (projr (statusFromPods exampleEnv exampleCloud (rev examplePods) emptyStatus))
       = SolrNodes (projr (statusFromPods exampleEnv exampleCloud examplePods emptyStatus))"
proof -
  have r: "statusFromPods exampleEnv exampleCloud examplePods emptyStatus
     = Inr (projr (statusFromPods exampleEnv exampleCloud examplePods emptyStatus))"
    by code_simp
  have s: "sort (map podName examplePods) = [''pod-a'', ''pod-b'', ''pod-c'']"
    by code_simp
  have d: "distinct (map podName examplePods)"
    by code_simp
  have m: "mset (rev examplePods) = mset examplePods"
    by simp
  note t = node_status_sorted_and_order_independent [OF r]
  from t [THEN conjunct1] obtain nodes where
    n: "SolrNodes (projr (statusFromPods exampleEnv exampleCloud examplePods emptyStatus)) = Some nodes"
      "map node_Name nodes = sort (map podName examplePods)"
    by (elim conjE exE)
  have "\<exists>st''. statusFromPods exampleEnv exampleCloud (rev examplePods) emptyStatus = Inr st''
         \<and> SolrNodes st'' = SolrNodes (projr (statusFromPods exampleEnv exampleCloud examplePods
               emptyStatus))"
    using d m by (intro t [THEN conjunct2, rule_format, of "rev examplePods" emptyStatus] conjI)
  then obtain st'' where
    "statusFromPods exampleEnv exampleCloud (rev examplePods) emptyStatus = Inr st''"
    "SolrNodes st'' = SolrNodes (projr (statusFromPods exampleEnv exampleCloud examplePods
               emptyStatus))"
    by (elim exE conjE)
  then have p: "SolrNodes (projr (statusFromPods exampleEnv exampleCloud (rev examplePods) emptyStatus))
       = SolrNodes (projr (statusFromPods exampleEnv exampleCloud examplePods emptyStatus))"
    by simp
  show ?thesis
    using r s d m n p by simp
qed

text \<open>
  C2. When some listed pod that reports container statuses runs a version other than the
  target, the aggregator reports the target tag of the desired state as \<open>TargetVersion\<close>
  and, as \<open>Version\<close>, the first such divergent version in the order in which the platform
  listed the pods (not in the order of the pod names); the reported version is in any case
  one of the divergent versions.
\<close>

theorem version_skew_reports_first_divergent_in_list_order:
  assumes "statusFromPods e sc pods st = Inr st'"
    and "divergentVersions e sc pods \<noteq> []"
  shows "TargetVersion st' = Tag (SolrImage (Spec sc))
       \<and> Version st' = hd (divergentVersions e sc pods)
       \<and> Version st' \<in> set (divergentVersions e sc pods)"
proof -
  obtain r where np: "\<forall>p\<in>set pods. \<not> podPanics p" and r: "Replicas (Spec sc) = Some r"
    using assms(1) by (rule statusFromPods_InrD)
  have "TargetVersion st' = Tag (SolrImage (Spec sc))
       \<and> Version st' = hd (divergentVersions e sc pods)"
    using assms statusFromPods_eq [OF np r, of e st] by auto
  then show ?thesis using assms(2) by simp
qed

theorem version_skew_witness:
  "statusFromPods exampleEnv exampleCloud examplePods emptyStatus
     = Inr (projr (statusFromPods exampleEnv exampleCloud examplePods emptyStatus))
   \<and> divergentVersions exampleEnv exampleCloud examplePods = [''v1'', ''v1'']
   \<and> TargetVersion (projr (statusFromPods exampleEnv exampleCloud examplePods emptyStatus)) = ''v2''
   \<and> Version (projr (statusFromPods exampleEnv exampleCloud examplePods emptyStatus)) = ''v1''"
proof -
  have r: "statusFromPods exampleEnv exampleCloud examplePods emptyStatus
     = Inr (projr (statusFromPods exampleEnv exampleCloud examplePods emptyStatus))"
    by code_simp
  have d: "divergentVersions exampleEnv exampleCloud examplePods = [''v1'', ''v1'']"
    by code_simp
  have n: "divergentVersions exampleEnv exampleCloud examplePods \<noteq> []"
    unfolding d by simp
  have t: "Tag (SolrImage (Spec exampleCloud)) = ''v2''"
    by (simp add: exampleCloud_def)
  show ?thesis
    using r d t version_skew_reports_first_divergent_in_list_order [OF r n] by simp
qed

text \<open>
  C2 as the specification words it fails: with target \<open>v2\<close> and the pods listed as
  \<open>pod-b\<close> (on \<open>v3\<close>), \<open>pod-a\<close> (on \<open>v1\<close>), the reported version is \<open>v3\<close>, the first in
  the list, while the first divergent version in the order of the pod names is \<open>v1\<close>.
\<close>

theorem version_skew_sorted_order_counterexample:
  "map_sum id Version (statusFromPods exampleEnv exampleCloud skewedPods emptyStatus) = Inr ''v3''
   \<and> firstDivergentByName exampleEnv exampleCloud skewedPods = Some ''v1''"
  by code_simp

lemma count_in_distinct:
  "distinct xs \<Longrightarrow> length (filter (\<lambda>v. v = x) xs) = (if x \<in> set xs then 1 else 0)"
  by (induction xs) auto

lemma backupVolumes_eq_pods:
  assumes "\<forall>p\<in>set pods. distinct (pod_VolumeNames p)"
  shows "length (filter (\<lambda>v. v = BackupRestoreVolumeName e) (concat (map pod_VolumeNames pods)))
           = podsMountingBackup e pods"
  using assms
proof (induction pods)
  case Nil
  then show ?case by (simp add: podsMountingBackup_def)
next
  case (Cons p ps)
  then have "length (filter (\<lambda>v. v = BackupRestoreVolumeName e) (concat (map pod_VolumeNames ps)))
           = podsMountingBackup e ps"
    by simp
  moreover have "length (filter (\<lambda>v. v = BackupRestoreVolumeName e) (pod_VolumeNames p))
           = (if BackupRestoreVolumeName e \<in> set (pod_VolumeNames p) then 1 else 0)"
    using Cons.prems by (intro count_in_distinct) simp
  ultimately show ?case by (simp add: podsMountingBackup_def)
qed

text \<open>
  C4. When the desired state declares a backup volume, the aggregator, started from a
  status whose flag is not set (as \<open>Reconcile\<close> starts it), sets \<open>BackupRestoreReady\<close>
  exactly when the number of listed pods whose volume list includes the backup volume
  equals the desired replica count and that count is not zero. When the desired state
  declares no backup volume the flag is never set, whatever the pods mount. (The volume
  names of a pod are distinct, as the platform requires.)
\<close>

theorem backup_ready_iff_all_replicas_mount:
  assumes "statusFromPods e sc pods st = Inr st'"
    and "\<not> BackupRestoreReady st"
    and "\<forall>p\<in>set pods. distinct (pod_VolumeNames p)"
    and "Replicas (Spec sc) = Some r"
  shows "(BackupRestoreVolume (Spec sc) \<noteq> None \<longrightarrow>
            (BackupRestoreReady st' \<longleftrightarrow> int (podsMountingBackup e pods) = r \<and> r \<noteq> 0))
       \<and> (BackupRestoreVolume (Spec sc) = None \<longrightarrow> \<not> BackupRestoreReady st')"
proof -
  obtain r' where np: "\<forall>p\<in>set pods. \<not> podPanics p" and "Replicas (Spec sc) = Some r'"
    using assms(1) by (rule statusFromPods_InrD)
  have flag: "BackupRestoreReady st' \<longleftrightarrow>
                backupVolumes e sc pods = r \<and> backupVolumes e sc pods > 0"
    using assms(1,2) statusFromPods_eq [OF np assms(4), of e st] by auto
  have cnt: "BackupRestoreVolume (Spec sc) \<noteq> None \<Longrightarrow>
               backupVolumes e sc pods = int (podsMountingBackup e pods)"
    using backupVolumes_eq_pods [OF assms(3), of e] by (simp add: backupVolumes_def)
  have none: "BackupRestoreVolume (Spec sc) = None \<Longrightarrow> backupVolumes e sc pods = 0"
    by (simp add: backupVolumes_def)
  show ?thesis
  proof (intro conjI impI)
    assume "BackupRestoreVolume (Spec sc) \<noteq> None"
    then have "backupVolumes e sc pods = int (podsMountingBackup e pods)" by (rule cnt)
    with flag show "BackupRestoreReady st' \<longleftrightarrow> int (podsMountingBackup e pods) = r \<and> r \<noteq> 0"
      by auto
  next
    assume "BackupRestoreVolume (Spec sc) = None"
    then have "backupVolumes e sc pods = 0" by (rule none)
    with flag show "\<not> BackupRestoreReady st'" by simp
  qed
qed

theorem backup_ready_witness:
  "BackupRestoreReady (projr (statusFromPods exampleEnv exampleCloudBackup mountingPods emptyStatus))
   \<and> \<not> BackupRestoreReady
         (projr (statusFromPods exampleEnv exampleCloudBackup partlyMountingPods emptyStatus))
   \<and> \<not> BackupRestoreReady
         (projr (statusFromPods exampleEnv exampleCloudBackupNoReplicas mountingPods emptyStatus))
   \<and> \<not> BackupRestoreReady
         (projr (statusFromPods exampleEnv exampleCloud mountingPods emptyStatus))"
proof -
  have r1: "statusFromPods exampleEnv exampleCloudBackup mountingPods emptyStatus
     = Inr (projr (statusFromPods exampleEnv exampleCloudBackup mountingPods emptyStatus))"
    by code_simp
  have r2: "statusFromPods exampleEnv exampleCloudBackup partlyMountingPods emptyStatus
     = Inr (projr (statusFromPods exampleEnv exampleCloudBackup partlyMountingPods emptyStatus))"
    by code_simp
  have r3: "statusFromPods exampleEnv exampleCloudBackupNoReplicas mountingPods emptyStatus
     = Inr (projr (statusFromPods exampleEnv exampleCloudBackupNoReplicas mountingPods emptyStatus))"
    by code_simp
  have r4: "statusFromPods exampleEnv exampleCloud mountingPods emptyStatus
     = Inr (projr (statusFromPods exampleEnv exampleCloud mountingPods emptyStatus))"
    by code_simp
  have f: "\<not> BackupRestoreReady emptyStatus"
    by (simp add: emptyStatus_def)
  have d1: "\<forall>p\<in>set mountingPods. distinct (pod_VolumeNames p)"
    by (simp add: mountingPods_def examplePod_def)
  have d2: "\<forall>p\<in>set partlyMountingPods. distinct (pod_VolumeNames p)"
    by (simp add: partlyMountingPods_def examplePod_def)
  have c1: "Replicas (Spec exampleCloudBackup) = Some 3"
      "BackupRestoreVolume (Spec exampleCloudBackup) \<noteq> None"
    by (simp_all add: exampleCloudBackup_def exampleCloud_def)
  have c3: "Replicas (Spec exampleCloudBackupNoReplicas) = Some 0"
      "BackupRestoreVolume (Spec exampleCloudBackupNoReplicas) \<noteq> None"
    by (simp_all add: exampleCloudBackupNoReplicas_def exampleCloud_def)
  have c4: "Replicas (Spec exampleCloud) = Some 3"
      "BackupRestoreVolume (Spec exampleCloud) = None"
    by (simp_all add: exampleCloud_def)
  have m1: "int (podsMountingBackup exampleEnv mountingPods) = 3"
    by code_simp
  have m2: "int (podsMountingBackup exampleEnv partlyMountingPods) = 2"
    by code_simp
  show ?thesis
    using c1(2) c3(2) c4(2) m1 m2
      backup_ready_iff_all_replicas_mount [OF r1 f d1 c1(1)]
      backup_ready_iff_all_replicas_mount [OF r2 f d2 c1(1)]
      backup_ready_iff_all_replicas_mount [OF r3 f d1 c3(1)]
      backup_ready_iff_all_replicas_mount [OF r4 f d1 c4(1)]
    by simp
qed

text \<open>
  C4 as the specification words it fails: three listed pods mount the backup volume and
  the desired replica count is three, but the desired state declares no backup volume, and
  the flag is not set.
\<close>

theorem backup_ready_counterexample:
  "Replicas (Spec exampleCloud) = Some 3
   \<and> int (podsMountingBackup exampleEnv mountingPods) = 3
   \<and> map_sum id BackupRestoreReady
        (statusFromPods exampleEnv exampleCloud mountingPods emptyStatus) = Inr False"
  by code_simp

section \<open>The coordination cluster\<close>

text \<open>
  C3. \<open>reconcileZk\<close> itself raises a bad-request error exactly when no external
  connection is set and either no provision request is set or the integration is disabled;
  it then makes no client call and leaves the status as it is. An external connection is
  adopted without an error and without a client call, also when a provision request is set
  beside it. In the remaining case (provision requested, integration enabled) an error can
  only come from the owner wiring or from the platform: with the owner wiring succeeding,
  no fault injected, every stored cluster stored under its own name and a field copy that
  keeps the name of the live object, the step returns no error.
\<close>

theorem reconcileZk_bad_request_cases:
  "(ConnectionInfo (ZookeeperRef (Spec instance)) = None
      \<and> (ProvidedZookeeper (ZookeeperRef (Spec instance)) = None \<or> \<not> useZkCRD e)
     \<longrightarrow> (\<exists>msg. reconcileZk e instance st w = ((Some (Err (BadRequest msg)), st), w)))
   \<and> (\<forall>ci. ConnectionInfo (ZookeeperRef (Spec instance)) = Some ci
     \<longrightarrow> reconcileZk e instance st w = ((None, st\<lparr>ZookeeperConnectionInfo := ci\<rparr>), w))
   \<and> (\<forall>pzk m. ConnectionInfo (ZookeeperRef (Spec instance)) = None
        \<and> ProvidedZookeeper (ZookeeperRef (Spec instance)) = Some pzk
        \<and> useZkCRD e
        \<and> SetControllerReference e instance (zk_Meta (GenerateZookeeperCluster e instance pzk)) = Inr m
        \<and> 0 \<le> zk_Spec_Replicas (GenerateZookeeperCluster e instance pzk)
        \<and> faults w = []
        \<and> (\<forall>k z. zookeeperClusters w k = Some z \<longrightarrow> keyOf (zk_Meta z) = k)
        \<and> (\<forall>src dst. keyOf (zk_Meta (snd (CopyZookeeperClusterFields e src dst)))
                         = keyOf (zk_Meta dst))
     \<longrightarrow> fst (fst (reconcileZk e instance st w)) = None)"
proof (intro conjI allI impI)
  assume "ConnectionInfo (ZookeeperRef (Spec instance)) = None
      \<and> (ProvidedZookeeper (ZookeeperRef (Spec instance)) = None \<or> \<not> useZkCRD e)"
  then show "\<exists>msg. reconcileZk e instance st w = ((Some (Err (BadRequest msg)), st), w)"
    by (cases "ProvidedZookeeper (ZookeeperRef (Spec instance))")
       (auto simp: reconcileZk_def)
next
  fix ci
  assume "ConnectionInfo (ZookeeperRef (Spec instance)) = Some ci"
  then show "reconcileZk e instance st w = ((None, st\<lparr>ZookeeperConnectionInfo := ci\<rparr>), w)"
    by (simp add: reconcileZk_def)
next
  fix pzk m
  assume a: "ConnectionInfo (ZookeeperRef (Spec instance)) = None
        \<and> ProvidedZookeeper (ZookeeperRef (Spec instance)) = Some pzk
        \<and> useZkCRD e
        \<and> SetControllerReference e instance (zk_Meta (GenerateZookeeperCluster e instance pzk)) = Inr m
        \<and> 0 \<le> zk_Spec_Replicas (GenerateZookeeperCluster e instance pzk)
        \<and> faults w = []
        \<and> (\<forall>k z. zookeeperClusters w k = Some z \<longrightarrow> keyOf (zk_Meta z) = k)
        \<and> (\<forall>src dst. keyOf (zk_Meta (snd (CopyZookeeperClusterFields e src dst)))
                         = keyOf (zk_Meta dst))"
  have wf: "\<forall>k z. zookeeperClusters w k = Some z \<longrightarrow> keyOf (zk_Meta z) = k"
    using a by (elim conjE)
  have cp: "\<forall>src dst. keyOf (zk_Meta (snd (CopyZookeeperClusterFields e src dst)))
                         = keyOf (zk_Meta dst)"
    using a by (elim conjE)
  have b: "ConnectionInfo (ZookeeperRef (Spec instance)) = None"
      "ProvidedZookeeper (ZookeeperRef (Spec instance)) = Some pzk"
      "useZkCRD e"
      "SetControllerReference e instance (zk_Meta (GenerateZookeeperCluster e instance pzk)) = Inr m"
      "0 \<le> zk_Spec_Replicas (GenerateZookeeperCluster e instance pzk)"
      "faults w = []"
    using a by simp_all
  show "fst (fst (reconcileZk e instance st w)) = None"
  proof (cases "zookeeperClusters w (keyOf m)")
    case None
    with b show ?thesis
      by (simp add: reconcileZk_def clientGet_def clientCreate_def nextFault_def logCall_def
            IsNotFound_def)
  next
    case (Some found)
    then have k: "keyOf (zk_Meta found) = keyOf m"
      using wf [rule_format, of "keyOf m" found] by simp
    obtain changed live where c:
      "CopyZookeeperClusterFields e ((GenerateZookeeperCluster e instance pzk)\<lparr>zk_Meta := m\<rparr>) found
         = (changed, live)"
      by (cases "CopyZookeeperClusterFields e
                   ((GenerateZookeeperCluster e instance pzk)\<lparr>zk_Meta := m\<rparr>) found")
    have "keyOf (zk_Meta (snd (CopyZookeeperClusterFields e
             ((GenerateZookeeperCluster e instance pzk)\<lparr>zk_Meta := m\<rparr>) found)))
           = keyOf (zk_Meta found)"
      using cp [rule_format, of "(GenerateZookeeperCluster e instance pzk)\<lparr>zk_Meta := m\<rparr>" found] .
    with c k have kl: "keyOf (zk_Meta live) = keyOf m" by simp
    show ?thesis
      using b Some c kl
      by (cases changed)
         (simp_all add: reconcileZk_def clientGet_def clientUpdate_def nextFault_def logCall_def)
  qed
qed

theorem reconcileZk_bad_request_witness:
  "reconcileZk exampleEnv exampleCloudNoZk emptyStatus exampleWorldZk
     = ((Some (Err (BadRequest ''No Zookeeper reference information provided.'')), emptyStatus),
        exampleWorldZk)
   \<and> (\<exists>msg. reconcileZk (exampleEnv\<lparr>useZkCRD := False\<rparr>) exampleCloudProvided emptyStatus exampleWorldZk
         = ((Some (Err (BadRequest msg)), emptyStatus), exampleWorldZk))
   \<and> reconcileZk exampleEnv exampleCloudBoth emptyStatus exampleWorldZk
     = ((None, emptyStatus\<lparr>ZookeeperConnectionInfo :=
           \<lparr>InternalConnectionString = ''zk-0.zk:2181'', ExternalConnectionString = None,
            ChRoot = ''/demo''\<rparr>\<rparr>), exampleWorldZk)
   \<and> fst (fst (reconcileZk exampleEnv exampleCloudProvided emptyStatus exampleWorldZk)) = None"
proof -
  have n: "ConnectionInfo (ZookeeperRef (Spec exampleCloudNoZk)) = None"
      "ProvidedZookeeper (ZookeeperRef (Spec exampleCloudNoZk)) = None"
    by (simp_all add: exampleCloudNoZk_def)
  have p: "ConnectionInfo (ZookeeperRef (Spec exampleCloudProvided)) = None"
      "ProvidedZookeeper (ZookeeperRef (Spec exampleCloudProvided))
         = Some \<lparr>pzk_Zookeeper = ''ensemble'', pzk_ChRoot = ''/demo''\<rparr>"
    by (simp_all add: exampleCloudProvided_def)
  have b: "ConnectionInfo (ZookeeperRef (Spec exampleCloudBoth))
         = Some \<lparr>InternalConnectionString = ''zk-0.zk:2181'', ExternalConnectionString = None,
                 ChRoot = ''/demo''\<rparr>"
    by (simp add: exampleCloudBoth_def exampleCloud_def)
  have u: "useZkCRD exampleEnv" "\<not> useZkCRD (exampleEnv\<lparr>useZkCRD := False\<rparr>)"
    by (simp_all add: exampleEnv_def)
  have o: "SetControllerReference exampleEnv exampleCloudProvided
             (zk_Meta (GenerateZookeeperCluster exampleEnv exampleCloudProvided
                         \<lparr>pzk_Zookeeper = ''ensemble'', pzk_ChRoot = ''/demo''\<rparr>))
           = Inr ((zk_Meta (GenerateZookeeperCluster exampleEnv exampleCloudProvided
                         \<lparr>pzk_Zookeeper = ''ensemble'', pzk_ChRoot = ''/demo''\<rparr>))
                    \<lparr>OwnerReferences := [keyOf (sc_Meta exampleCloudProvided)]\<rparr>)"
    by (simp add: exampleEnv_def)
  have g: "0 \<le> zk_Spec_Replicas (GenerateZookeeperCluster exampleEnv exampleCloudProvided
                         \<lparr>pzk_Zookeeper = ''ensemble'', pzk_ChRoot = ''/demo''\<rparr>)"
    by (simp add: exampleEnv_def)
  have f: "faults exampleWorldZk = []"
    by (simp add: exampleWorldZk_def exampleWorld_def)
  have s: "\<forall>k z. zookeeperClusters exampleWorldZk k = Some z \<longrightarrow> keyOf (zk_Meta z) = k"
    by (simp add: exampleWorldZk_def exampleZookeeper_def keyOf_def)
  have c: "\<forall>src dst. keyOf (zk_Meta (snd (CopyZookeeperClusterFields exampleEnv src dst)))
                         = keyOf (zk_Meta dst)"
    by (simp add: exampleEnv_def keyOf_def)
  note t1 = reconcileZk_bad_request_cases [of exampleCloudNoZk exampleEnv emptyStatus exampleWorldZk]
  note t2 = reconcileZk_bad_request_cases
    [of exampleCloudProvided "exampleEnv\<lparr>useZkCRD := False\<rparr>" emptyStatus exampleWorldZk]
  note t3 = reconcileZk_bad_request_cases [of exampleCloudBoth exampleEnv emptyStatus exampleWorldZk]
  note t4 = reconcileZk_bad_request_cases
    [of exampleCloudProvided exampleEnv emptyStatus exampleWorldZk]
  have 1: "reconcileZk exampleEnv exampleCloudNoZk emptyStatus exampleWorldZk
     = ((Some (Err (BadRequest ''No Zookeeper reference information provided.'')), emptyStatus),
        exampleWorldZk)"
    using n by (simp add: reconcileZk_def)
  have 2: "\<exists>msg. reconcileZk (exampleEnv\<lparr>useZkCRD := False\<rparr>) exampleCloudProvided emptyStatus
                   exampleWorldZk
         = ((Some (Err (BadRequest msg)), emptyStatus), exampleWorldZk)"
    using t2 [THEN conjunct1] p(1) u(2) by simp
  have 3: "reconcileZk exampleEnv exampleCloudBoth emptyStatus exampleWorldZk
     = ((None, emptyStatus\<lparr>ZookeeperConnectionInfo :=
           \<lparr>InternalConnectionString = ''zk-0.zk:2181'', ExternalConnectionString = None,
            ChRoot = ''/demo''\<rparr>\<rparr>), exampleWorldZk)"
    using t3 [THEN conjunct2, THEN conjunct1] b by simp
  have 4: "fst (fst (reconcileZk exampleEnv exampleCloudProvided emptyStatus exampleWorldZk)) = None"
    using t4 [THEN conjunct2, THEN conjunct2, rule_format, OF conjI [OF p(1) conjI [OF p(2)
            conjI [OF u(1) conjI [OF o conjI [OF g conjI [OF f conjI [OF s c]]]]]]]] .
  show ?thesis using 1 2 3 4 t1 by simp
qed

text \<open>
  C3 as the specification words it fails: with both an external connection and a provision
  request set, the exactly-one rule is violated and \<open>reconcileZk\<close> returns no error; it
  adopts the external connection.
\<close>

theorem reconcileZk_both_set_counterexample:
  "ConnectionInfo (ZookeeperRef (Spec exampleCloudBoth)) \<noteq> None
   \<and> ProvidedZookeeper (ZookeeperRef (Spec exampleCloudBoth)) \<noteq> None
   \<and> fst (fst (reconcileZk exampleEnv exampleCloudBoth emptyStatus exampleWorldZk)) = None"
  by (simp add: reconcileZk_def exampleCloudBoth_def exampleCloud_def)

lemma digit_no_comma: "k < 10 \<Longrightarrow> ''0123456789'' ! k \<noteq> CHR '',''"
proof -
  assume "k < 10"
  then have "''0123456789'' ! k \<in> set ''0123456789''"
    by (intro nth_mem) simp
  then show ?thesis by auto
qed

lemma decimal_no_comma: "CHR '','' \<notin> set (decimal n)"
proof (induction n rule: decimal.induct)
  case (1 n)
  show ?case
  proof (cases "n < 10")
    case True
    then show ?thesis
      using digit_no_comma [of n] by (subst decimal.simps) simp
  next
    case False
    then have "CHR '','' \<notin> set (decimal (n div 10))" by (rule "1.IH")
    moreover have "''0123456789'' ! (n mod 10) \<noteq> CHR '',''"
      by (rule digit_no_comma) simp
    ultimately show ?thesis
      using False by (subst decimal.simps) simp
  qed
qed

lemma Itoa_no_comma: "CHR '','' \<notin> set (strconv_Itoa i)"
  by (simp add: strconv_Itoa_def decimal_no_comma)

lemma commas_append [simp]: "commas (xs @ ys) = commas xs + commas ys"
  by (simp add: commas_def)

lemma commas_Cons [simp]: "commas (c # s) = (if c = CHR '','' then 1 else 0) + commas s"
  by (simp add: commas_def)

lemma commas_zero: "CHR '','' \<notin> set s \<Longrightarrow> commas s = 0"
  by (induction s) (auto simp: commas_def)

lemma zkInternalEntry_commas:
  "CHR '','' \<notin> set name \<Longrightarrow> CHR '','' \<notin> set ns \<Longrightarrow> commas (zkInternalEntry name ns port i) = 0"
  by (simp add: zkInternalEntry_def commas_zero Itoa_no_comma)

lemma commas_Join:
  "\<forall>x\<in>set xs. commas x = 0 \<Longrightarrow> commas (strings_Join xs '','') = length xs - 1"
proof (induction xs "'',''" rule: strings_Join.induct)
  case 1
  then show ?case by (simp add: commas_def)
next
  case (2 x)
  then show ?case by simp
next
  case (3 x y ys)
  then have "commas (strings_Join (y # ys) '','') = length (y # ys) - 1" by simp
  moreover have "commas x = 0" using 3 by simp
  moreover have "commas '','' = 1" by (simp add: commas_def)
  ultimately show ?case by simp
qed

text \<open>
  C5. When the coordination cluster is provisioned (no external connection, provision
  request set, integration enabled, owner wiring succeeding) and the cluster already
  exists, the internal connection string that \<open>reconcileZk\<close> writes into the status is
  the join with \<open>,\<close> of one entry per replica of the generated descriptor (the declared
  count; the live object contributes its name, namespace and client port only); entry
  \<open>i\<close> is \<open>name-i.name-headless.namespace:port\<close>; with a name and a namespace free of
  commas the string has exactly one separator less than entries. The external connection
  string is the reported external endpoint, or unset when that is empty; the error of the
  step is the error of the update of the live object, if one was needed, and nothing else.
\<close>

theorem reconcileZk_provided_connection_strings:
  assumes "ConnectionInfo (ZookeeperRef (Spec instance)) = None"
    and "ProvidedZookeeper (ZookeeperRef (Spec instance)) = Some pzk"
    and "useZkCRD e"
    and "SetControllerReference e instance (zk_Meta (GenerateZookeeperCluster e instance pzk)) = Inr m"
    and "clientGet ZookeeperClusterKind zookeeperClusters (keyOf m) w = (Inr found, w1)"
    and "CopyZookeeperClusterFields e ((GenerateZookeeperCluster e instance pzk)\<lparr>zk_Meta := m\<rparr>) found
           = (changed, live)"
    and "0 \<le> zk_Spec_Replicas (GenerateZookeeperCluster e instance pzk)"
  shows "\<exists>entries.
       length entries = nat (zk_Spec_Replicas (GenerateZookeeperCluster e instance pzk))
     \<and> (\<forall>i < length entries.
           entries ! i = zkInternalEntry (Name (zk_Meta live)) (Namespace (zk_Meta live))
                           (ZookeeperPortsClient e live) i)
     \<and> ZookeeperConnectionInfo (snd (fst (reconcileZk e instance st w))) =
         \<lparr>InternalConnectionString = strings_Join entries '','',
          ExternalConnectionString =
            (if zk_Status_ExternalClientEndpoint live = [] then None
             else Some (zk_Status_ExternalClientEndpoint live)),
          ChRoot = pzk_ChRoot pzk\<rparr>
     \<and> (CHR '','' \<notin> set (Name (zk_Meta live)) \<and> CHR '','' \<notin> set (Namespace (zk_Meta live))
          \<longrightarrow> commas (strings_Join entries '','') = length entries - 1)
     \<and> fst (fst (reconcileZk e instance st w)) =
         map_option Err
           (fst (if changed
                 then clientUpdate ZookeeperClusterKind zookeeperClusters zookeeperClusters_update
                        (keyOf (zk_Meta live)) live w1
                 else (None, w1)))"
proof -
  define entries where "entries =
     map (zkInternalEntry (Name (zk_Meta live)) (Namespace (zk_Meta live))
            (ZookeeperPortsClient e live))
       [0 ..< nat (zk_Spec_Replicas (GenerateZookeeperCluster e instance pzk))]"
  have len: "length entries = nat (zk_Spec_Replicas (GenerateZookeeperCluster e instance pzk))"
    by (simp add: entries_def)
  have nth: "\<forall>i < length entries.
           entries ! i = zkInternalEntry (Name (zk_Meta live)) (Namespace (zk_Meta live))
                           (ZookeeperPortsClient e live) i"
    by (simp add: entries_def)
  obtain err w2 where u: "(if changed
                 then clientUpdate ZookeeperClusterKind zookeeperClusters zookeeperClusters_update
                        (keyOf (zk_Meta live)) live w1
                 else (None, w1)) = (err, w2)"
    by (cases "if changed
                 then clientUpdate ZookeeperClusterKind zookeeperClusters zookeeperClusters_update
                        (keyOf (zk_Meta live)) live w1
                 else (None, w1)")
  have run: "reconcileZk e instance st w =
     ((map_option Err err,
       st\<lparr>ZookeeperConnectionInfo :=
         \<lparr>InternalConnectionString = strings_Join entries '','',
          ExternalConnectionString =
            (if zk_Status_ExternalClientEndpoint live = [] then None
             else Some (zk_Status_ExternalClientEndpoint live)),
          ChRoot = pzk_ChRoot pzk\<rparr>\<rparr>), w2)"
    using assms u by (simp add: reconcileZk_def entries_def del: if_split)
  have com: "commas (strings_Join entries '','') = length entries - 1"
    if "CHR '','' \<notin> set (Name (zk_Meta live)) \<and> CHR '','' \<notin> set (Namespace (zk_Meta live))"
  proof (rule commas_Join)
    show "\<forall>x\<in>set entries. commas x = 0"
      using that by (auto simp: entries_def zkInternalEntry_commas)
  qed
  show ?thesis
    apply (rule exI [of _ entries])
    using len nth run u com by simp
qed

theorem reconcileZk_provided_witness:
  "fst (reconcileZk exampleEnv exampleCloudProvided emptyStatus exampleWorldZk)
     = (None,
        emptyStatus\<lparr>ZookeeperConnectionInfo :=
          \<lparr>InternalConnectionString =
             ''demo-solrcloud-zookeeper-0.demo-solrcloud-zookeeper-headless.search:2181,demo-solrcloud-zookeeper-1.demo-solrcloud-zookeeper-headless.search:2181,demo-solrcloud-zookeeper-2.demo-solrcloud-zookeeper-headless.search:2181'',
           ExternalConnectionString = None,
           ChRoot = ''/demo''\<rparr>\<rparr>)
   \<and> trace (snd (reconcileZk exampleEnv exampleCloudProvided emptyStatus exampleWorldZk))
       = [GetCall ZookeeperClusterKind (''search'', ''demo-solrcloud-zookeeper'')]
   \<and> (\<exists>entries. length entries = 3
         \<and> InternalConnectionString (ZookeeperConnectionInfo
              (snd (fst (reconcileZk exampleEnv exampleCloudProvided emptyStatus exampleWorldZk))))
             = strings_Join entries '',''
         \<and> commas (strings_Join entries '','') = 2)"
proof -
  let ?pzk = "\<lparr>pzk_Zookeeper = ''ensemble'', pzk_ChRoot = ''/demo''\<rparr>"
  let ?m = "(zk_Meta (GenerateZookeeperCluster exampleEnv exampleCloudProvided ?pzk))
                    \<lparr>OwnerReferences := [keyOf (sc_Meta exampleCloudProvided)]\<rparr>"
  let ?w1 = "exampleWorldZk\<lparr>trace := [GetCall ZookeeperClusterKind (''search'', ''demo-solrcloud-zookeeper'')]\<rparr>"
  have p: "ConnectionInfo (ZookeeperRef (Spec exampleCloudProvided)) = None"
      "ProvidedZookeeper (ZookeeperRef (Spec exampleCloudProvided)) = Some ?pzk"
    by (simp_all add: exampleCloudProvided_def)
  have u: "useZkCRD exampleEnv"
    by (simp add: exampleEnv_def)
  have o: "SetControllerReference exampleEnv exampleCloudProvided
             (zk_Meta (GenerateZookeeperCluster exampleEnv exampleCloudProvided ?pzk)) = Inr ?m"
    by (simp add: exampleEnv_def)
  have k: "keyOf ?m = (''search'', ''demo-solrcloud-zookeeper'')"
    by (simp add: exampleEnv_def exampleMeta_def keyOf_def exampleCloudProvided_def exampleCloud_def)
  have g: "clientGet ZookeeperClusterKind zookeeperClusters (keyOf ?m) exampleWorldZk
             = (Inr exampleZookeeper, ?w1)"
    unfolding k
    by (simp add: clientGet_def nextFault_def logCall_def exampleWorldZk_def exampleWorld_def)
  have c: "CopyZookeeperClusterFields exampleEnv
             ((GenerateZookeeperCluster exampleEnv exampleCloudProvided ?pzk)\<lparr>zk_Meta := ?m\<rparr>)
             exampleZookeeper = (False, exampleZookeeper)"
    by (simp add: exampleEnv_def exampleZookeeper_def)
  have r: "0 \<le> zk_Spec_Replicas (GenerateZookeeperCluster exampleEnv exampleCloudProvided ?pzk)"
      "nat (zk_Spec_Replicas (GenerateZookeeperCluster exampleEnv exampleCloudProvided ?pzk)) = 3"
    by (simp_all add: exampleEnv_def)
  have nc: "CHR '','' \<notin> set (Name (zk_Meta exampleZookeeper))
            \<and> CHR '','' \<notin> set (Namespace (zk_Meta exampleZookeeper))"
    by (simp add: exampleZookeeper_def)
  have run: "fst (reconcileZk exampleEnv exampleCloudProvided emptyStatus exampleWorldZk)
     = (None,
        emptyStatus\<lparr>ZookeeperConnectionInfo :=
          \<lparr>InternalConnectionString =
             ''demo-solrcloud-zookeeper-0.demo-solrcloud-zookeeper-headless.search:2181,demo-solrcloud-zookeeper-1.demo-solrcloud-zookeeper-headless.search:2181,demo-solrcloud-zookeeper-2.demo-solrcloud-zookeeper-headless.search:2181'',
           ExternalConnectionString = None,
           ChRoot = ''/demo''\<rparr>\<rparr>)"
    by code_simp
  have tr: "trace (snd (reconcileZk exampleEnv exampleCloudProvided emptyStatus exampleWorldZk))
       = [GetCall ZookeeperClusterKind (''search'', ''demo-solrcloud-zookeeper'')]"
    by code_simp
  from reconcileZk_provided_connection_strings [OF p u o g c r(1), of emptyStatus]
  obtain entries where e: "length entries = 3"
    "ZookeeperConnectionInfo (snd (fst (reconcileZk exampleEnv exampleCloudProvided emptyStatus
        exampleWorldZk))) =
         \<lparr>InternalConnectionString = strings_Join entries '','',
          ExternalConnectionString =
            (if zk_Status_ExternalClientEndpoint exampleZookeeper = [] then None
             else Some (zk_Status_ExternalClientEndpoint exampleZookeeper)),
          ChRoot = pzk_ChRoot ?pzk\<rparr>"
    "CHR '','' \<notin> set (Name (zk_Meta exampleZookeeper))
       \<and> CHR '','' \<notin> set (Namespace (zk_Meta exampleZookeeper))
      \<longrightarrow> commas (strings_Join entries '','') = length entries - 1"
    unfolding r(2) by (elim exE conjE)
  from e(3) nc e(1) have "commas (strings_Join entries '','') = 2" by simp
  with e(1,2) have "\<exists>entries. length entries = 3
         \<and> InternalConnectionString (ZookeeperConnectionInfo
              (snd (fst (reconcileZk exampleEnv exampleCloudProvided emptyStatus exampleWorldZk))))
             = strings_Join entries '',''
         \<and> commas (strings_Join entries '','') = 2"
    by (intro exI [of _ entries]) simp
  with run tr show ?thesis by simp
qed

section \<open>The per-node services\<close>

lemma nodeAddresses_length:
  "nodeAddresses e instance nodes w = (Inr ips, w') \<Longrightarrow> length ips = length nodes"
proof (induction nodes arbitrary: ips w)
  case Nil
  then show ?case by simp
next
  case (Cons n ns)
  obtain err ip w1 where rn: "reconcileNodeService e instance n w = ((err, ip), w1)"
    by (metis prod.exhaust)
  show ?case
  proof (cases err)
    case (Some x)
    with Cons.prems rn show ?thesis by simp
  next
    case None
    obtain r w2 where na: "nodeAddresses e instance ns w1 = (r, w2)"
      by (cases "nodeAddresses e instance ns w1")
    show ?thesis
    proof (cases r)
      case (Inl x)
      with Cons.prems rn None na show ?thesis by simp
    next
      case (Inr ips')
      with Cons.prems rn None na have "ips = ip # ips'" and "w2 = w'" by simp_all
      moreover have "length ips' = length ns"
        using na Inr \<open>w2 = w'\<close> by (intro Cons.IH [of w1 ips']) simp
      ultimately show ?thesis by simp
    qed
  qed
qed

lemma nodeServicesLoop_eq:
  assumes "External (Spec instance) = Some ext" "UseExternalAddress ext"
  shows "nodeServicesLoop e instance nodes block hostNameIpMap w =
     (case nodeAddresses e instance nodes w of
        (Inl err, w') \<Rightarrow> (Inl (Err err), w')
      | (Inr ips, w') \<Rightarrow>
          (Inr (block \<or> [] \<in> set ips, resolvedHosts e instance nodes ips @ hostNameIpMap), w'))"
proof (induction nodes arbitrary: block hostNameIpMap w)
  case Nil
  show ?case by (simp add: resolvedHosts_def)
next
  case (Cons n ns)
  obtain err ip w1 where rn: "reconcileNodeService e instance n w = ((err, ip), w1)"
    by (metis prod.exhaust)
  show ?case
  proof (cases err)
    case (Some x)
    with rn show ?thesis by simp
  next
    case None
    obtain r w2 where na: "nodeAddresses e instance ns w1 = (r, w2)"
      by (cases "nodeAddresses e instance ns w1")
    show ?thesis
    proof (cases "ip = []")
      case True
      have "nodeServicesLoop e instance (n # ns) block hostNameIpMap w
              = nodeServicesLoop e instance ns True hostNameIpMap w1"
        using rn None assms True by simp
      also have "\<dots> = (case nodeAddresses e instance ns w1 of
          (Inl err, w') \<Rightarrow> (Inl (Err err), w')
        | (Inr ips, w') \<Rightarrow>
            (Inr (True \<or> [] \<in> set ips, resolvedHosts e instance ns ips @ hostNameIpMap), w'))"
        by (rule Cons.IH)
      finally show ?thesis
        using rn None na True by (cases r) (simp_all add: resolvedHosts_def)
    next
      case False
      have "nodeServicesLoop e instance (n # ns) block hostNameIpMap w
              = nodeServicesLoop e instance ns block
                  ((AdvertisedNodeHost e instance n, ip) # hostNameIpMap) w1"
        using rn None assms False by simp
      also have "\<dots> = (case nodeAddresses e instance ns w1 of
          (Inl err, w') \<Rightarrow> (Inl (Err err), w')
        | (Inr ips, w') \<Rightarrow>
            (Inr (block \<or> [] \<in> set ips,
                  resolvedHosts e instance ns ips
                    @ (AdvertisedNodeHost e instance n, ip) # hostNameIpMap), w'))"
        by (rule Cons.IH)
      finally show ?thesis
        using rn None na False by (cases r) (simp_all add: resolvedHosts_def)
    qed
  qed
qed

text \<open>
  C6. With external addresses advertised, the loop over the node names is the walk that
  reconciles the service of every node in order and stops at an error only: a node whose
  address is still empty sets the flag that defers the workload set and the walk goes on.
  When no service fails there is one address per node, the flag is set exactly when it
  was set before or some address is empty, and the host map gains the advertised host of
  every node whose address is resolved, those of the nodes after an unresolved one
  included.
\<close>

theorem node_services_loop_does_not_short_circuit:
  assumes "External (Spec instance) = Some ext" and "UseExternalAddress ext"
  shows "nodeServicesLoop e instance nodes block hostNameIpMap w =
     (case nodeAddresses e instance nodes w of
        (Inl err, w') \<Rightarrow> (Inl (Err err), w')
      | (Inr ips, w') \<Rightarrow>
          (Inr (block \<or> [] \<in> set ips, resolvedHosts e instance nodes ips @ hostNameIpMap), w'))
   \<and> (\<forall>ips w'. nodeAddresses e instance nodes w = (Inr ips, w') \<longrightarrow>
         length ips = length nodes
         \<and> (\<forall>i < length nodes. ips ! i \<noteq> [] \<longrightarrow>
               (AdvertisedNodeHost e instance (nodes ! i), ips ! i)
                 \<in> set (resolvedHosts e instance nodes ips)))"
proof (intro conjI allI impI)
  show "nodeServicesLoop e instance nodes block hostNameIpMap w =
     (case nodeAddresses e instance nodes w of
        (Inl err, w') \<Rightarrow> (Inl (Err err), w')
      | (Inr ips, w') \<Rightarrow>
          (Inr (block \<or> [] \<in> set ips, resolvedHosts e instance nodes ips @ hostNameIpMap), w'))"
    using assms by (rule nodeServicesLoop_eq)
next
  fix ips w'
  assume "nodeAddresses e instance nodes w = (Inr ips, w')"
  then show "length ips = length nodes" by (rule nodeAddresses_length)
next
  fix ips w' i
  assume na: "nodeAddresses e instance nodes w = (Inr ips, w')"
    and i: "i < length nodes" and r: "ips ! i \<noteq> []"
  have len: "length ips = length nodes" using na by (rule nodeAddresses_length)
  let ?z = "zip (map (AdvertisedNodeHost e instance) nodes) ips"
  have "i < length ?z" using i len by simp
  then have "?z ! i \<in> set ?z" by (rule nth_mem)
  moreover have "?z ! i = (AdvertisedNodeHost e instance (nodes ! i), ips ! i)"
    using i len by simp
  ultimately have "(AdvertisedNodeHost e instance (nodes ! i), ips ! i) \<in> set ?z" by simp
  with r show "(AdvertisedNodeHost e instance (nodes ! i), ips ! i)
                 \<in> set (resolvedHosts e instance nodes ips)"
    by (simp add: resolvedHosts_def)
qed

theorem node_services_loop_witness:
  "External (Spec exampleCloudExternal)
     = Some \<lparr>Method = Ingress, UseExternalAddress = True, HideNodes = False,
             HideCommon = False, DomainName = ''example.com''\<rparr>
   \<and> fst (nodeAddresses exampleEnv exampleCloudExternal
            [''demo-solrcloud-0'', ''demo-solrcloud-1'', ''demo-solrcloud-2''] exampleWorldNodes)
       = Inr [[], ''10.0.0.7'', []]
   \<and> fst (nodeServicesLoop exampleEnv exampleCloudExternal
            [''demo-solrcloud-0'', ''demo-solrcloud-1'', ''demo-solrcloud-2''] False []
            exampleWorldNodes)
       = Inr (True, [(''search-demo-solrcloud-1.example.com'', ''10.0.0.7'')])
   \<and> trace (snd (nodeServicesLoop exampleEnv exampleCloudExternal
            [''demo-solrcloud-0'', ''demo-solrcloud-1'', ''demo-solrcloud-2''] False []
            exampleWorldNodes))
       = [GetCall ServiceKind (''search'', ''demo-solrcloud-0''),
          CreateCall ServiceKind (''search'', ''demo-solrcloud-0''),
          GetCall ServiceKind (''search'', ''demo-solrcloud-1''),
          GetCall ServiceKind (''search'', ''demo-solrcloud-2''),
          CreateCall ServiceKind (''search'', ''demo-solrcloud-2'')]"
proof -
  let ?nodes = "[''demo-solrcloud-0'', ''demo-solrcloud-1'', ''demo-solrcloud-2'']"
  have x: "External (Spec exampleCloudExternal)
     = Some \<lparr>Method = Ingress, UseExternalAddress = True, HideNodes = False,
             HideCommon = False, DomainName = ''example.com''\<rparr>"
    by (simp add: exampleCloudExternal_def)
  have u: "UseExternalAddress \<lparr>Method = Ingress, UseExternalAddress = True, HideNodes = False,
             HideCommon = False, DomainName = ''example.com''\<rparr>"
    by simp
  have a: "fst (nodeAddresses exampleEnv exampleCloudExternal ?nodes exampleWorldNodes)
             = Inr [[], ''10.0.0.7'', []]"
    by code_simp
  have t: "trace (snd (nodeAddresses exampleEnv exampleCloudExternal ?nodes exampleWorldNodes))
       = [GetCall ServiceKind (''search'', ''demo-solrcloud-0''),
          CreateCall ServiceKind (''search'', ''demo-solrcloud-0''),
          GetCall ServiceKind (''search'', ''demo-solrcloud-1''),
          GetCall ServiceKind (''search'', ''demo-solrcloud-2''),
          CreateCall ServiceKind (''search'', ''demo-solrcloud-2'')]"
    by code_simp
  have h: "resolvedHosts exampleEnv exampleCloudExternal ?nodes [[], ''10.0.0.7'', []]
             = [(''search-demo-solrcloud-1.example.com'', ''10.0.0.7'')]"
    by code_simp
  obtain w' where p: "nodeAddresses exampleEnv exampleCloudExternal ?nodes exampleWorldNodes
             = (Inr [[], ''10.0.0.7'', []], w')"
    using a by (cases "nodeAddresses exampleEnv exampleCloudExternal ?nodes exampleWorldNodes")
      (simp del: nodeAddresses.simps)
  have t': "trace w' = [GetCall ServiceKind (''search'', ''demo-solrcloud-0''),
          CreateCall ServiceKind (''search'', ''demo-solrcloud-0''),
          GetCall ServiceKind (''search'', ''demo-solrcloud-1''),
          GetCall ServiceKind (''search'', ''demo-solrcloud-2''),
          CreateCall ServiceKind (''search'', ''demo-solrcloud-2'')]"
    using t by (simp only: p snd_conv)
  have "nodeServicesLoop exampleEnv exampleCloudExternal ?nodes False [] exampleWorldNodes
          = (Inr (False \<or> [] \<in> set [[], ''10.0.0.7'', []],
                  [(''search-demo-solrcloud-1.example.com'', ''10.0.0.7'')] @ []), w')"
    using node_services_loop_does_not_short_circuit
            [OF x u, of exampleEnv ?nodes False "[]" exampleWorldNodes, THEN conjunct1]
    by (simp only: p h prod.case sum.case)
  then have l: "fst (nodeServicesLoop exampleEnv exampleCloudExternal ?nodes False [] exampleWorldNodes)
          = Inr (True, [(''search-demo-solrcloud-1.example.com'', ''10.0.0.7'')])"
    and s: "snd (nodeServicesLoop exampleEnv exampleCloudExternal ?nodes False [] exampleWorldNodes)
          = w'"
    by (simp_all del: nodeServicesLoop.simps nodeAddresses.simps)
  show ?thesis
    by (intro conjI) (rule x, rule a, rule l, simp only: s t')
qed

section \<open>The metrics exporter\<close>

text \<open>
  C10. \<open>GenerateSolrPrometheusExporterDeployment\<close> changes the exporter it is given: for
  an exporter without pod options (and with an image, without which the call panics
  before it changes anything) the call returns a deployment and leaves the exporter with
  \<open>PodOptions\<close> pointing to an empty \<open>PodOptions\<close> value and every other field as it was.
  An exporter that has pod options is left as it was.
\<close>

theorem exporter_deployment_initialises_pod_options:
  "(PodOptions (CustomPrometheusKubeOptions (spe_Spec x)) = None \<and> Image (spe_Spec x) \<noteq> None
     \<longrightarrow> (\<exists>d. GenerateSolrPrometheusExporterDeployment toImageName x conn =
            (Inr d,
             x\<lparr>spe_Spec := (spe_Spec x)
                  \<lparr>CustomPrometheusKubeOptions := (CustomPrometheusKubeOptions (spe_Spec x))
                     \<lparr>PodOptions := Some emptyPodOptions\<rparr>\<rparr>\<rparr>)))
   \<and> (PodOptions (CustomPrometheusKubeOptions (spe_Spec x)) \<noteq> None \<and> Image (spe_Spec x) \<noteq> None
     \<longrightarrow> (\<exists>d. GenerateSolrPrometheusExporterDeployment toImageName x conn = (Inr d, x)))
   \<and> (Image (spe_Spec x) = None
     \<longrightarrow> GenerateSolrPrometheusExporterDeployment toImageName x conn = (Inl Panic, x))"
proof (intro conjI impI)
  assume "PodOptions (CustomPrometheusKubeOptions (spe_Spec x)) = None \<and> Image (spe_Spec x) \<noteq> None"
  then obtain img where "PodOptions (CustomPrometheusKubeOptions (spe_Spec x)) = None"
    "Image (spe_Spec x) = Some img" by auto
  then show "\<exists>d. GenerateSolrPrometheusExporterDeployment toImageName x conn =
            (Inr d,
             x\<lparr>spe_Spec := (spe_Spec x)
                  \<lparr>CustomPrometheusKubeOptions := (CustomPrometheusKubeOptions (spe_Spec x))
                     \<lparr>PodOptions := Some emptyPodOptions\<rparr>\<rparr>\<rparr>)"
    by (simp add: GenerateSolrPrometheusExporterDeployment_def Let_def del: if_split)
next
  assume "PodOptions (CustomPrometheusKubeOptions (spe_Spec x)) \<noteq> None \<and> Image (spe_Spec x) \<noteq> None"
  then obtain img po where "PodOptions (CustomPrometheusKubeOptions (spe_Spec x)) = Some po"
    "Image (spe_Spec x) = Some img" by auto
  then show "\<exists>d. GenerateSolrPrometheusExporterDeployment toImageName x conn = (Inr d, x)"
    by (simp add: GenerateSolrPrometheusExporterDeployment_def Let_def del: if_split)
next
  assume "Image (spe_Spec x) = None"
  then show "GenerateSolrPrometheusExporterDeployment toImageName x conn = (Inl Panic, x)"
    by (simp add: GenerateSolrPrometheusExporterDeployment_def Let_def del: if_split)
qed

theorem exporter_deployment_witness:
  "PodOptions (CustomPrometheusKubeOptions (spe_Spec exampleExporter)) = None
   \<and> Image (spe_Spec exampleExporter) \<noteq> None
   \<and> snd (GenerateSolrPrometheusExporterDeployment exampleToImageName exampleExporter
            \<lparr>CloudZkConnnectionString = ''zk-0.zk:2181/demo'', StandaloneAddress = []\<rparr>)
       = exampleExporter\<lparr>spe_Spec := (spe_Spec exampleExporter)
            \<lparr>CustomPrometheusKubeOptions :=
               \<lparr>PodOptions = Some \<lparr>Affinity = None, Resources = \<lparr>Limits = None, Requests = None\<rparr>\<rparr>,
                DeploymentOptions = None, ConfigMapOptions = None\<rparr>\<rparr>\<rparr>
   \<and> snd (GenerateSolrPrometheusExporterDeployment exampleToImageName
            (snd (GenerateSolrPrometheusExporterDeployment exampleToImageName exampleExporter
                    \<lparr>CloudZkConnnectionString = ''zk-0.zk:2181/demo'', StandaloneAddress = []\<rparr>))
            \<lparr>CloudZkConnnectionString = ''zk-0.zk:2181/demo'', StandaloneAddress = []\<rparr>)
       = snd (GenerateSolrPrometheusExporterDeployment exampleToImageName exampleExporter
                \<lparr>CloudZkConnnectionString = ''zk-0.zk:2181/demo'', StandaloneAddress = []\<rparr>)
   \<and> GenerateSolrPrometheusExporterDeployment exampleToImageName
         (exampleExporter\<lparr>spe_Spec := (spe_Spec exampleExporter)\<lparr>Image := None\<rparr>\<rparr>)
         \<lparr>CloudZkConnnectionString = ''zk-0.zk:2181/demo'', StandaloneAddress = []\<rparr>
       = (Inl Panic, exampleExporter\<lparr>spe_Spec := (spe_Spec exampleExporter)\<lparr>Image := None\<rparr>\<rparr>)"
proof -
  let ?conn = "\<lparr>CloudZkConnnectionString = ''zk-0.zk:2181/demo'', StandaloneAddress = []\<rparr>"
  let ?x' = "exampleExporter\<lparr>spe_Spec := (spe_Spec exampleExporter)
            \<lparr>CustomPrometheusKubeOptions := (CustomPrometheusKubeOptions (spe_Spec exampleExporter))
               \<lparr>PodOptions := Some emptyPodOptions\<rparr>\<rparr>\<rparr>"
  have p: "PodOptions (CustomPrometheusKubeOptions (spe_Spec exampleExporter)) = None"
    and i: "Image (spe_Spec exampleExporter) \<noteq> None"
    by (simp_all add: exampleExporter_def)
  have p': "PodOptions (CustomPrometheusKubeOptions (spe_Spec ?x')) \<noteq> None"
    and i': "Image (spe_Spec ?x') \<noteq> None"
    by (simp_all add: exampleExporter_def)
  have n: "Image (spe_Spec (exampleExporter\<lparr>spe_Spec := (spe_Spec exampleExporter)\<lparr>Image := None\<rparr>\<rparr>))
             = None"
    by simp
  have 1: "snd (GenerateSolrPrometheusExporterDeployment exampleToImageName exampleExporter ?conn) = ?x'"
    using exporter_deployment_initialises_pod_options
            [of exampleExporter exampleToImageName ?conn, THEN conjunct1] p i
    by auto
  have 2: "snd (GenerateSolrPrometheusExporterDeployment exampleToImageName ?x' ?conn) = ?x'"
    using exporter_deployment_initialises_pod_options
            [of ?x' exampleToImageName ?conn, THEN conjunct2, THEN conjunct1] p' i'
    by auto
  have 3: "GenerateSolrPrometheusExporterDeployment exampleToImageName
         (exampleExporter\<lparr>spe_Spec := (spe_Spec exampleExporter)\<lparr>Image := None\<rparr>\<rparr>) ?conn
       = (Inl Panic, exampleExporter\<lparr>spe_Spec := (spe_Spec exampleExporter)\<lparr>Image := None\<rparr>\<rparr>)"
    using exporter_deployment_initialises_pod_options
            [of "exampleExporter\<lparr>spe_Spec := (spe_Spec exampleExporter)\<lparr>Image := None\<rparr>\<rparr>"
                exampleToImageName ?conn, THEN conjunct2, THEN conjunct2] n
    by simp
  have e: "?x' = exampleExporter\<lparr>spe_Spec := (spe_Spec exampleExporter)
            \<lparr>CustomPrometheusKubeOptions :=
               \<lparr>PodOptions = Some \<lparr>Affinity = None, Resources = \<lparr>Limits = None, Requests = None\<rparr>\<rparr>,
                DeploymentOptions = None, ConfigMapOptions = None\<rparr>\<rparr>\<rparr>"
    by (simp add: exampleExporter_def emptyPodOptions_def)
  show ?thesis
    using p i 1 2 3 e by simp
qed

end
